theory Spec2Isabelle
  imports Complex_Main
begin

section \<open>Data model\<close>

text \<open>
  The purchase pipeline of Mechinweb: the payment service and the service manager
  (TypeScript, run in the browser), the invoicing integration and the payment webhook
  (JavaScript serverless functions), and the order validation trigger (PL/pgSQL).

  Conventions of the embedding.
  \<^item> A JavaScript \<open>number\<close> that carries money or a quantity is a rational (\<open>rat\<close>): the
    binary rounding of IEEE doubles is not modelled, \<open>NaN\<close> and the infinities are written
    as \<open>None\<close> where the code can produce them.
  \<^item> A thrown \<open>Error\<close> and a datastore error object are the message, a \<open>string\<close>;
    a function that can throw returns \<open>string + 'a\<close> with \<open>Inl\<close> the message.
  \<^item> Everything outside the repository (the Postgres tables behind the Supabase client,
    the authentication service, the rate source, the invoicing provider, the mail
    function) is either a table of the record \<open>world\<close>, or an answer given by the
    record \<open>env\<close>: one field for each call the code makes.
  \<^item> The identifier columns of the tables (\<open>services.id\<close>, \<open>clients.id\<close>,
    \<open>orders.service_id\<close>, \<open>orders.client_id\<close>) are of the Postgres type \<open>uuid\<close>. An
    identifier is its text; Postgres compares two texts as uuid values, that is up to
    the case of their letters (\<open>uuid_eq\<close>), and stores and returns the lower-case text
    (\<open>uuid_text\<close>). The tables hold texts of the uuid form, and the code compares
    only such texts with these columns: an identifier of any other form is turned away
    by \<open>uuidRegex\<close> before a query is made.
\<close>

type_synonym amount = rat

record service =
  s_id :: string
  s_name :: string
  s_category :: string
  s_pricing :: "(string \<times> amount) list option"

record client =
  c_id :: string
  c_name :: string
  c_email :: string
  c_phone :: string
  c_company :: string

record order =
  o_id :: string
  o_client_id :: string
  o_service_id :: string
  o_package_type :: string
  o_amount_usd :: amount
  o_amount_inr :: amount
  o_amount_aud :: amount
  o_currency :: string
  o_status :: string
  o_payment_gateway :: string
  o_zoho_invoice_id :: "string option"
  o_zoho_customer_id :: "string option"
  o_updated_at :: string

text \<open>A row of the \<open>invoices\<close> table: the receipt the webhook writes.\<close>

record invoice_row =
  i_order_id :: string
  i_client_id :: string
  i_invoice_number :: "string option"
  i_amount_usd :: amount
  i_amount_inr :: amount
  i_amount_aud :: amount
  i_currency :: string
  i_total_amount :: "amount option"
  i_status :: string
  i_due_date :: string

record notification =
  n_client_id :: string
  n_title :: string
  n_message :: string
  n_type :: string
  n_read :: bool

text \<open>The payload of the payment confirmation mail (\<open>sendNotificationEmail\<close>).\<close>

record email_data =
  e_clientName :: string
  e_clientEmail :: string
  e_serviceName :: string
  e_packageType :: string
  e_orderId :: string
  e_amount :: "amount option"

record audit_entry =
  a_client_id :: "string option"
  a_action :: string
  a_transaction_id :: string
  a_order_id :: "string option"
  a_success :: bool
  a_error_message :: "string option"

text \<open>
  The service item the payment service sends to the invoicing integration, and the
  request that carries it. The free text of the request (\<open>notes\<close>) and the empty list
  \<open>addOns\<close> are left out.
\<close>

record service_item =
  si_serviceId :: string
  si_serviceName :: string
  si_packageType :: string
  si_quantity :: rat
  si_unitPrice :: "amount option"
  si_totalPrice :: amount

record customer_data =
  cd_name :: string
  cd_email :: string
  cd_phone :: string
  cd_company :: string

record invoice_request =
  rq_customerData :: customer_data
  rq_serviceItems :: "service_item list"
  rq_currency :: string

text \<open>What \<open>createPaymentIntent\<close> returns: the interface \<open>PaymentIntent\<close>.\<close>

record payment_intent =
  pi_invoice_id :: string
  pi_invoice_number :: string
  pi_payment_url :: string
  pi_total :: amount
  pi_status :: string
  pi_customer_id :: string
  pi_transaction_id :: string

text \<open>
  The reply of the invoicing integration to the \<open>fetch\<close> of the payment service:
  the call itself fails (\<open>FetchFailed\<close>), the status is not 2xx (\<open>NotOk\<close>, with
  the status as it is printed and the text of the body), the body says
  \<open>success: false\<close>, or the body carries the invoice and the customer.
\<close>

datatype zoho_reply =
    FetchFailed string
  | NotOk string string
  | Unsuccessful "string option"
  | Success payment_intent

record user =
  u_id :: string
  u_email :: string
  u_email_confirmed_at :: "string option"

text \<open>
  The tables, the two process-wide caches of \<open>ServiceManager\<close>, and what left the
  program: the requests posted to the invoicing integration and the mails the mail
  function accepted.
\<close>

record world =
  services :: "service list"
  clients :: "client list"
  orders :: "order list"
  invoices :: "invoice_row list"
  notifications :: "notification list"
  purchase_audit_log :: "audit_entry list"
  serviceCache :: "(string \<times> service) list"
  serviceMappingCache :: "(string \<times> string) list option"
  zoho_requests :: "invoice_request list"
  emails :: "email_data list"

text \<open>
  The answers of the outside world during one invocation. An error field holds
  \<open>Some message\<close> when the datastore answers that call with an error.
\<close>

record env =
  now :: string
  transactionId :: string
  new_order_id :: string
  auth_user :: "user option"
  auth_error :: "string option"
  resolve_select_error :: "string option"
  services_select_error :: "string option"
  services_fallback_error :: "string option"
  service_by_id_error :: "string option"
  clients_select_error :: "string option"
  orders_insert_error :: "string option"
  orders_update_error :: "string option"
  invoices_insert_error :: "string option"
  notifications_insert_error :: "string option"
  audit_insert_error :: "string option"
  email_ok :: bool
  convertCurrency :: "amount \<Rightarrow> string \<Rightarrow> string \<Rightarrow> string + amount"
  zoho_integration :: "invoice_request \<Rightarrow> zoho_reply"

section \<open>Texts and uuid values\<close>

text \<open>
  \<open>s.toLowerCase()\<close> on the letters A to Z; the bytes of any other character are left
  as they are.
\<close>

definition toLowerCase :: "string \<Rightarrow> string" where
  "toLowerCase s =
     map (\<lambda>c. let n = (of_char c :: nat) in if 65 \<le> n \<and> n \<le> 90 then char_of (n + 32) else c) s"

text \<open>
  The text Postgres returns for a uuid given in the hyphenated form, and the equality
  of two such texts as uuid values.
\<close>

definition uuid_text :: "string \<Rightarrow> string" where
  "uuid_text s = toLowerCase s"

definition uuid_eq :: "string \<Rightarrow> string \<Rightarrow> bool" where
  "uuid_eq a b \<longleftrightarrow> uuid_text a = uuid_text b"

section \<open>The order validation trigger\<close>

text \<open>
  \<open>validate_order_data()\<close>, run \<open>BEFORE INSERT OR UPDATE ON orders FOR EACH ROW\<close>:
  \<open>Some message\<close> is the exception raised, \<open>None\<close> is \<open>RETURN NEW\<close>. The checks are
  in the order of the function body.
\<close>

definition validate_order_data :: "world \<Rightarrow> order \<Rightarrow> string option" where
  "validate_order_data w new =
     (if \<not> (\<exists>s \<in> set (services w). uuid_eq (s_id s) (o_service_id new)) then
        Some (''Service with ID '' @ uuid_text (o_service_id new) @ '' does not exist'')
      else if \<not> (\<exists>c \<in> set (clients w). uuid_eq (c_id c) (o_client_id new)) then
        Some (''Client with ID '' @ uuid_text (o_client_id new) @ '' does not exist'')
      else if o_package_type new \<notin> set [''basic'', ''standard'', ''enterprise''] then
        Some (''Invalid package type: '' @ o_package_type new)
      else if o_amount_usd new \<le> 0 \<or> o_amount_inr new \<le> 0 then
        Some ''Order amounts must be positive''
      else None)"

section \<open>The orders table behind the Supabase client\<close>

text \<open>
  The answer of a Supabase query: \<open>data\<close> and \<open>error\<close>.
\<close>

type_synonym 'a pg_result = "'a option \<times> string option"

fun first_error :: "('a \<Rightarrow> string option) \<Rightarrow> 'a list \<Rightarrow> string option" where
  "first_error chk [] = None"
| "first_error chk (x # xs) = (case chk x of Some e \<Rightarrow> Some e | None \<Rightarrow> first_error chk xs)"

text \<open>
  \<open>from('orders').update(values).eq(column, value)\<close>: every row that matches is
  rewritten; the trigger runs on each new row and its exception aborts the statement,
  which then changes nothing. The rows returned are the rewritten ones.
\<close>

definition update_orders ::
  "env \<Rightarrow> world \<Rightarrow> (order \<Rightarrow> bool) \<Rightarrow> (order \<Rightarrow> order) \<Rightarrow> world \<times> (order list) pg_result" where
  "update_orders en w matches values =
     (case orders_update_error en of
        Some e \<Rightarrow> (w, (None, Some e))
      | None \<Rightarrow>
          (let rows = map values (filter matches (orders w)) in
           case first_error (validate_order_data w) rows of
             Some e \<Rightarrow> (w, (None, Some e))
           | None \<Rightarrow>
               (w\<lparr>orders := map (\<lambda>r. if matches r then values r else r) (orders w)\<rparr>,
                (Some rows, None))))"

text \<open>
  The same statement ended by \<open>.select(...).single()\<close>. The Supabase client asks
  PostgREST for one object; unless exactly one row comes back the answer is an error
  (and the statement is rolled back), so \<open>data\<close> is a row whenever \<open>error\<close> is null.
\<close>

definition update_orders_single ::
  "env \<Rightarrow> world \<Rightarrow> (order \<Rightarrow> bool) \<Rightarrow> (order \<Rightarrow> order) \<Rightarrow> world \<times> order pg_result" where
  "update_orders_single en w matches values =
     (case update_orders en w matches values of
        (w', (Some [row], None)) \<Rightarrow> (w', (Some row, None))
      | (w', (_, Some e)) \<Rightarrow> (w, (None, Some e))
      | (w', _) \<Rightarrow> (w, (None, Some ''JSON object requested, multiple (or no) rows returned'')))"

text \<open>The row as the table holds it: the two uuid columns in their stored text.\<close>

definition stored :: "order \<Rightarrow> order" where
  "stored row =
     row\<lparr>o_client_id := uuid_text (o_client_id row),
         o_service_id := uuid_text (o_service_id row)\<rparr>"

text \<open>
  \<open>from('orders').insert([row]).select(...).single()\<close>: the trigger, then the
  datastore's own answer; the row gets the identifier the datastore generates, and the
  row returned is the stored one.
\<close>

definition insert_orders :: "env \<Rightarrow> world \<Rightarrow> order \<Rightarrow> world \<times> order pg_result" where
  "insert_orders en w row =
     (case validate_order_data w row of
        Some e \<Rightarrow> (w, (None, Some e))
      | None \<Rightarrow>
          (case orders_insert_error en of
             Some e \<Rightarrow> (w, (None, Some e))
           | None \<Rightarrow> (w\<lparr>orders := orders w @ [stored row]\<rparr>, (Some (stored row), None))))"

section \<open>The payment webhook\<close>

record webhook_data =
  wd_invoice_id :: "string option"
  wd_invoice_number :: "string option"
  wd_total :: "amount option"
  wd_status :: "string option"
  wd_payment_date :: "string option"

record webhook =
  w_event_type :: "string option"
  w_data :: "webhook_data option"

text \<open>
  \<open>JSON.parse(event.body || '{}')\<close>: the body does not parse (or is \<open>null\<close>, whose
  fields cannot be read), or it gives the fields of the webhook, each possibly missing.
  A missing or falsy \<open>data\<close> is \<open>None\<close>.
\<close>

datatype event_body = Unparseable string | Json webhook

record http_event =
  httpMethod :: string
  body :: event_body

text \<open>
  The four answers of the webhook handler: the preflight answer, 405, 200 with
  \<open>{success: true, eventType}\<close>, and 500 with \<open>{success: false, error}\<close>.
\<close>

datatype response =
    Preflight
  | MethodNotAllowed
  | Processed string
  | Failed string

fun statusCode :: "response \<Rightarrow> nat" where
  "statusCode Preflight = 200"
| "statusCode MethodNotAllowed = 405"
| "statusCode (Processed eventType) = 200"
| "statusCode (Failed msg) = 500"

text \<open>A value put into a filter or a template literal: a missing one reads \<open>undefined\<close>.\<close>

definition js_string :: "string option \<Rightarrow> string" where
  "js_string v = (case v of Some s \<Rightarrow> s | None \<Rightarrow> ''undefined'')"

text \<open>
  \<open>sendNotificationEmail\<close>: the mail function accepts the mail or not; a failure is
  logged and swallowed.
\<close>

definition sendNotificationEmail :: "env \<Rightarrow> world \<Rightarrow> email_data \<Rightarrow> world" where
  "sendNotificationEmail en w emailData =
     (if email_ok en then w\<lparr>emails := emails w @ [emailData]\<rparr> else w)"

text \<open>
  The filter \<open>.eq('zoho_invoice_id', invoice_id)\<close>: a row whose column is null never
  matches.
\<close>

definition eq_zoho_invoice_id :: "string option \<Rightarrow> order \<Rightarrow> bool" where
  "eq_zoho_invoice_id invoice_id r \<longleftrightarrow> o_zoho_invoice_id r = Some (js_string invoice_id)"

text \<open>The joins of \<open>select('*, clients(*), services(*)')\<close>.\<close>

definition order_clients :: "world \<Rightarrow> order \<Rightarrow> client option" where
  "order_clients w ord = find (\<lambda>c. uuid_eq (c_id c) (o_client_id ord)) (clients w)"

definition order_services :: "world \<Rightarrow> order \<Rightarrow> service option" where
  "order_services w ord = find (\<lambda>s. uuid_eq (s_id s) (o_service_id ord)) (services w)"

definition handlePaymentReceived :: "env \<Rightarrow> world \<Rightarrow> webhook_data \<Rightarrow> (string + unit) \<times> world" where
  "handlePaymentReceived en w d =
     (case update_orders_single en w
             (eq_zoho_invoice_id (wd_invoice_id d))
             (\<lambda>r. r\<lparr>o_status := ''paid'', o_updated_at := now en\<rparr>) of
        (w1, (_, Some orderError)) \<Rightarrow> (Inl orderError, w1)
      | (w1, (None, None)) \<Rightarrow> (Inr (), w1)
      | (w1, (Some ord, None)) \<Rightarrow>
          (let w2 = (case invoices_insert_error en of
                       Some invoiceError \<Rightarrow> w1
                     | None \<Rightarrow>
                         w1\<lparr>invoices := invoices w1 @
                           [\<lparr>i_order_id = o_id ord,
                             i_client_id = o_client_id ord,
                             i_invoice_number = wd_invoice_number d,
                             i_amount_usd = o_amount_usd ord,
                             i_amount_inr = o_amount_inr ord,
                             i_amount_aud = o_amount_aud ord,
                             i_currency = o_currency ord,
                             i_total_amount = wd_total d,
                             i_status = ''paid'',
                             i_due_date = now en\<rparr>]\<rparr>);
               w3 = (case notifications_insert_error en of
                       Some notificationError \<Rightarrow> w2
                     | None \<Rightarrow>
                         w2\<lparr>notifications := notifications w2 @
                           [\<lparr>n_client_id = o_client_id ord,
                             n_title = ''Payment Confirmed'',
                             n_message = ''Payment received for '' @
                               js_string (map_option s_name (order_services w1 ord)) @
                               ''. Your service will begin shortly.'',
                             n_type = ''success'',
                             n_read = False\<rparr>]\<rparr>);
               w4 = (case order_clients w1 ord of
                       None \<Rightarrow> w3
                     | Some c \<Rightarrow>
                         sendNotificationEmail en w3
                           \<lparr>e_clientName = c_name c,
                            e_clientEmail = c_email c,
                            e_serviceName =
                              (case order_services w1 ord of
                                 Some s \<Rightarrow> (if s_name s = [] then ''Service'' else s_name s)
                               | None \<Rightarrow> ''Service''),
                            e_packageType = o_package_type ord,
                            e_orderId = o_id ord,
                            e_amount = wd_total d\<rparr>)
           in (Inr (), w4)))"

text \<open>The \<open>switch\<close> of \<open>handleInvoiceStatusChange\<close>, with its initial value as default.\<close>

definition orderStatus :: "string option \<Rightarrow> string" where
  "orderStatus status =
     (if status = Some ''paid'' then ''paid''
      else if status = Some ''overdue'' then ''pending''
      else if status = Some ''cancelled'' then ''cancelled''
      else if status = Some ''sent'' then ''pending''
      else ''pending'')"

definition handleInvoiceStatusChange :: "env \<Rightarrow> world \<Rightarrow> webhook_data \<Rightarrow> (string + unit) \<times> world" where
  "handleInvoiceStatusChange en w d =
     (case update_orders en w
             (eq_zoho_invoice_id (wd_invoice_id d))
             (\<lambda>r. r\<lparr>o_status := orderStatus (wd_status d), o_updated_at := now en\<rparr>) of
        (w1, (_, Some error)) \<Rightarrow> (Inl error, w1)
      | (w1, (_, None)) \<Rightarrow> (Inr (), w1))"

text \<open>
  The exported handler. An \<open>event_type\<close> is present when it is a non-empty string;
  the error of a handler is caught and answered with 500.
\<close>

definition handler :: "env \<Rightarrow> world \<Rightarrow> http_event \<Rightarrow> response \<times> world" where
  "handler en w event =
     (if httpMethod event = ''OPTIONS'' then (Preflight, w)
      else if httpMethod event \<noteq> ''POST'' then (MethodNotAllowed, w)
      else
        (case body event of
           Unparseable msg \<Rightarrow> (Failed msg, w)
         | Json webhookData \<Rightarrow>
             (case (w_event_type webhookData, w_data webhookData) of
                (Some eventType, Some d) \<Rightarrow>
                  (if eventType = [] then (Failed ''Invalid webhook data structure'', w)
                   else if eventType = ''invoice_payment_received'' then
                     (case handlePaymentReceived en w d of
                        (Inl error, w') \<Rightarrow> (Failed error, w')
                      | (Inr _, w') \<Rightarrow> (Processed eventType, w'))
                   else if eventType = ''invoice_status_changed'' then
                     (case handleInvoiceStatusChange en w d of
                        (Inl error, w') \<Rightarrow> (Failed error, w')
                      | (Inr _, w') \<Rightarrow> (Processed eventType, w'))
                   else (Processed eventType, w))
              | _ \<Rightarrow> (Failed ''Invalid webhook data structure'', w))))"

text \<open>Successive deliveries, each in the environment of its own invocation.\<close>

fun deliver :: "world \<Rightarrow> (env \<times> http_event) list \<Rightarrow> world" where
  "deliver w [] = w"
| "deliver w ((en, event) # rest) = deliver (snd (handler en w event)) rest"

section \<open>JavaScript values\<close>

text \<open>
  Reading the property \<open>key\<close> of a plain object (\<open>obj[key]\<close>): the object's own entry,
  or else the member of that name it inherits from \<open>Object.prototype\<close>, or else
  \<open>undefined\<close>. The object is an association list whose first entry for a key is the
  value last assigned.
\<close>

datatype 'a js_prop = Own 'a | Inherited | Absent

definition object_prototype_keys :: "string list" where
  "object_prototype_keys =
     [''constructor'', ''toString'', ''toLocaleString'', ''valueOf'', ''hasOwnProperty'',
      ''isPrototypeOf'', ''propertyIsEnumerable'', ''__proto__'', ''__defineGetter__'',
      ''__defineSetter__'', ''__lookupGetter__'', ''__lookupSetter__'']"

definition js_get :: "(string \<times> 'a) list \<Rightarrow> string \<Rightarrow> 'a js_prop" where
  "js_get obj key =
     (case map_of obj key of
        Some v \<Rightarrow> Own v
      | None \<Rightarrow> if key \<in> set object_prototype_keys then Inherited else Absent)"

text \<open>
  The text an inherited member is coerced to where a string is expected (as V8 prints
  it): a function, except \<open>__proto__\<close>, which is the prototype object.
\<close>

definition js_member_text :: "string \<Rightarrow> string" where
  "js_member_text key =
     (if key = ''__proto__'' then ''[object Object]''
      else if key = ''constructor'' then ''function Object() { [native code] }''
      else ''function '' @ key @ ''() { [native code] }'')"

text \<open>\<open>s.includes(sub)\<close>: \<open>sub\<close> occurs in \<open>s\<close> as a contiguous run.\<close>

fun js_includes :: "string \<Rightarrow> string \<Rightarrow> bool" where
  "js_includes [] sub \<longleftrightarrow> sub = []"
| "js_includes (c # cs) sub \<longleftrightarrow> take (length sub) (c # cs) = sub \<or> js_includes cs sub"

text \<open>
  \<open>parseFloat(x.toFixed(2))\<close>: the nearest multiple of one hundredth, a tie going away
  from zero.
\<close>

definition toFixed2 :: "amount \<Rightarrow> amount" where
  "toFixed2 x =
     (if x < 0 then - (of_int \<lfloor>- x * 100 + 1 / 2\<rfloor> / 100)
      else of_int \<lfloor>x * 100 + 1 / 2\<rfloor> / 100)"

section \<open>The service manager\<close>

text \<open>
  The test of \<open>uuidRegex\<close>: five groups of 8, 4, 4, 4 and 12 hexadecimal digits in
  either case, the third starting with a digit from 1 to 5 and the fourth with one of
  8, 9, a, b.
\<close>

definition is_hex :: "char \<Rightarrow> bool" where
  "is_hex c \<longleftrightarrow> c \<in> set ''0123456789abcdefABCDEF''"

definition uuidRegex_test :: "string \<Rightarrow> bool" where
  "uuidRegex_test s \<longleftrightarrow>
     length s = 36 \<and>
     list_all is_hex (take 8 s) \<and> s ! 8 = CHR ''-'' \<and>
     list_all is_hex (take 4 (drop 9 s)) \<and> s ! 13 = CHR ''-'' \<and>
     s ! 14 \<in> set ''12345'' \<and> list_all is_hex (take 3 (drop 15 s)) \<and> s ! 18 = CHR ''-'' \<and>
     s ! 19 \<in> set ''89abAB'' \<and> list_all is_hex (take 3 (drop 20 s)) \<and> s ! 23 = CHR ''-'' \<and>
     list_all is_hex (drop 24 s)"

text \<open>
  A query ended by \<open>.maybeSingle()\<close>: no row is \<open>data = null\<close> without an error, more
  than one row is an error.
\<close>

definition maybeSingle :: "string option \<Rightarrow> 'a list \<Rightarrow> 'a pg_result" where
  "maybeSingle error rows =
     (case error of
        Some e \<Rightarrow> (None, Some e)
      | None \<Rightarrow>
          (case rows of
             [] \<Rightarrow> (None, None)
           | [row] \<Rightarrow> (Some row, None)
           | _ \<Rightarrow> (None, Some ''JSON object requested, multiple (or no) rows returned'')))"

text \<open>\<open>serviceCache.set(key, value)\<close> on the cache as an association list.\<close>

definition cache_set :: "string \<Rightarrow> service \<Rightarrow> (string \<times> service) list \<Rightarrow> (string \<times> service) list" where
  "cache_set key v cache = (key, v) # filter (\<lambda>p. fst p \<noteq> key) cache"

text \<open>
  \<open>getAllServices\<close>. The table \<open>services\<close> lists the catalog in the order the query
  returns it. The fallback query, made when the error names a missing column, returns
  without filling the cache.
\<close>

definition getAllServices :: "env \<Rightarrow> world \<Rightarrow> (string + service list) \<times> world" where
  "getAllServices en w =
     (case services_select_error en of
        Some error \<Rightarrow>
          (if js_includes error ''does not exist'' then
             (case services_fallback_error en of
                Some fallbackError \<Rightarrow> (Inl fallbackError, w)
              | None \<Rightarrow> (Inr (services w), w))
           else (Inl error, w))
      | None \<Rightarrow>
          (Inr (services w),
           w\<lparr>serviceCache := foldl (\<lambda>cache service. cache_set (s_id service) service cache)
                                (serviceCache w) (services w)\<rparr>))"

text \<open>
  The alias keys \<open>createServiceMapping\<close> assigns to a service, from its lower-case
  name: the eight tests in their order, each with its three keys.
\<close>

definition alias_keys :: "string \<Rightarrow> string list" where
  "alias_keys name =
     (if js_includes name ''email migration'' \<or> js_includes name ''email setup''
      then [''email-migration'', ''email_migration'', ''email-setup''] else []) @
     (if js_includes name ''email deliverability'' \<or> js_includes name ''email security'' \<or>
         (js_includes name ''domain'' \<and> js_includes name ''email'')
      then [''email-deliverability'', ''email_security'', ''domain-email-security''] else []) @
     (if js_includes name ''ssl'' \<or> js_includes name ''https''
      then [''ssl-setup'', ''ssl_setup'', ''https-setup''] else []) @
     (if js_includes name ''cloud suite'' \<or> js_includes name ''cloud management''
      then [''cloud-management'', ''cloud_management'', ''cloud-suite''] else []) @
     (if js_includes name ''data migration'' \<or> js_includes name ''cloud data''
      then [''data-migration'', ''data_migration'', ''cloud-data-migration''] else []) @
     (if js_includes name ''hosting'' \<or> js_includes name ''control panel''
      then [''hosting-support'', ''hosting_support'', ''control-panel-support''] else []) @
     (if js_includes name ''acronis''
      then [''acronis-setup'', ''acronis_setup'', ''acronis-backup''] else []) @
     (if js_includes name ''per incident'' \<or> js_includes name ''incident support''
      then [''per-incident-support'', ''per_incident_support'', ''incident-support''] else [])"

definition createServiceMapping :: "env \<Rightarrow> world \<Rightarrow> (string \<times> string) list \<times> world" where
  "createServiceMapping en w =
     (case serviceMappingCache w of
        Some mapping \<Rightarrow> (mapping, w)
      | None \<Rightarrow>
          (case getAllServices en w of
             (Inl error, w1) \<Rightarrow> ([], w1)
           | (Inr svcs, w1) \<Rightarrow>
               (let mapping =
                      foldl (\<lambda>m service.
                               foldl (\<lambda>m key. (key, s_id service) # m) m
                                 (alias_keys (toLowerCase (s_name service))))
                        [] svcs
                in (mapping, w1\<lparr>serviceMappingCache := Some mapping\<rparr>))))"

text \<open>
  \<open>resolveServiceId\<close>: \<open>None\<close> is \<open>null\<close>. The filter \<open>.eq('id', serviceIdentifier)\<close> is
  on a uuid column. No call in the body throws, so the final \<open>catch\<close> has nothing to
  catch.
\<close>

definition resolveServiceId :: "env \<Rightarrow> world \<Rightarrow> string \<Rightarrow> string option \<times> world" where
  "resolveServiceId en w serviceIdentifier =
     (if uuidRegex_test serviceIdentifier then
        (case maybeSingle (resolve_select_error en)
                (filter (\<lambda>s. uuid_eq (s_id s) serviceIdentifier) (services w)) of
           (_, Some error) \<Rightarrow> (None, w)
         | (Some data, None) \<Rightarrow> (Some serviceIdentifier, w)
         | (None, None) \<Rightarrow> (None, w))
      else
        (case createServiceMapping en w of
           (mapping, w1) \<Rightarrow>
             (case js_get mapping serviceIdentifier of
                Own resolvedId \<Rightarrow>
                  (if resolvedId \<noteq> [] then (Some resolvedId, w1) else (None, w1))
              | Inherited \<Rightarrow> (Some (js_member_text serviceIdentifier), w1)
              | Absent \<Rightarrow> (None, w1))))"

definition getServiceById :: "env \<Rightarrow> world \<Rightarrow> string \<Rightarrow> (string + service option) \<times> world" where
  "getServiceById en w serviceId =
     (if \<not> uuidRegex_test serviceId then (Inr None, w)
      else
        (case map_of (serviceCache w) serviceId of
           Some cached \<Rightarrow> (Inr (Some cached), w)
         | None \<Rightarrow>
             (case maybeSingle (service_by_id_error en)
                     (filter (\<lambda>s. uuid_eq (s_id s) serviceId) (services w)) of
                (_, Some error) \<Rightarrow> (Inl error, w)
              | (None, None) \<Rightarrow> (Inr None, w)
              | (Some data, None) \<Rightarrow>
                  (Inr (Some data), w\<lparr>serviceCache := cache_set serviceId data (serviceCache w)\<rparr>))))"

section \<open>The payment service\<close>

record amounts =
  usd :: amount
  inr :: amount
  aud :: amount

text \<open>
  \<open>calculateCurrencyAmounts\<close>. The converter \<open>convertCurrency\<close> is not part of the
  sources at hand: it is the field of the environment, and it returns an amount or
  throws. A throw of either conversion is caught and answered with the amount unchanged
  for the three currencies.
\<close>

definition calculateCurrencyAmounts :: "env \<Rightarrow> amount \<Rightarrow> string \<Rightarrow> amounts" where
  "calculateCurrencyAmounts en amount currency =
     (case
        (if currency = ''USD'' then
           (case convertCurrency en amount ''USD'' ''INR'' of
              Inl error \<Rightarrow> Inl error
            | Inr inr' \<Rightarrow>
                (case convertCurrency en amount ''USD'' ''AUD'' of
                   Inl error \<Rightarrow> Inl error
                 | Inr aud' \<Rightarrow> Inr (amount, inr', aud')))
         else if currency = ''INR'' then
           (case convertCurrency en amount ''INR'' ''USD'' of
              Inl error \<Rightarrow> Inl error
            | Inr usd' \<Rightarrow>
                (case convertCurrency en amount ''INR'' ''AUD'' of
                   Inl error \<Rightarrow> Inl error
                 | Inr aud' \<Rightarrow> Inr (usd', amount, aud')))
         else if currency = ''AUD'' then
           (case convertCurrency en amount ''AUD'' ''USD'' of
              Inl error \<Rightarrow> Inl error
            | Inr usd' \<Rightarrow>
                (case convertCurrency en amount ''AUD'' ''INR'' of
                   Inl error \<Rightarrow> Inl error
                 | Inr inr' \<Rightarrow> Inr (usd', inr', amount)))
         else Inr (amount, amount, amount)) of
        Inr (usd', inr', aud') \<Rightarrow>
          \<lparr>usd = toFixed2 usd', inr = toFixed2 inr', aud = toFixed2 aud'\<rparr>
      | Inl error \<Rightarrow> \<lparr>usd = amount, inr = amount, aud = amount\<rparr>)"

text \<open>
  \<open>logPaymentAttempt\<close>: one row of \<open>purchase_audit_log\<close>; an error of the insert is
  not looked at.
\<close>

definition logPaymentAttempt ::
  "env \<Rightarrow> world \<Rightarrow> string option \<Rightarrow> string \<Rightarrow> bool \<Rightarrow> string option \<Rightarrow> world" where
  "logPaymentAttempt en w orderId action success errorMessage =
     (case audit_insert_error en of
        Some error \<Rightarrow> w
      | None \<Rightarrow>
          w\<lparr>purchase_audit_log := purchase_audit_log w @
            [\<lparr>a_client_id =
                (case auth_error en of
                   Some userError \<Rightarrow> None
                 | None \<Rightarrow> map_option u_id (auth_user en)),
              a_action = action,
              a_transaction_id = transactionId en,
              a_order_id = orderId,
              a_success = success,
              a_error_message = errorMessage\<rparr>]\<rparr>)"

text \<open>
  The private \<open>createZohoInvoice\<close> of the payment service. The quotient
  \<open>unitPrice / quantity\<close> is not a finite number when the quantity is zero.
\<close>

definition createZohoInvoice ::
  "env \<Rightarrow> world \<Rightarrow> order \<Rightarrow> service \<Rightarrow> client \<Rightarrow> rat \<Rightarrow> (string + payment_intent) \<times> world" where
  "createZohoInvoice en w ord svc cl quantity =
     (let customerData =
            \<lparr>cd_name = c_name cl, cd_email = c_email cl,
             cd_phone = c_phone cl, cd_company = c_company cl\<rparr>;
          unitPrice =
            (if o_currency ord = ''USD'' then o_amount_usd ord
             else if o_currency ord = ''INR'' then o_amount_inr ord
             else o_amount_aud ord);
          serviceItems =
            [\<lparr>si_serviceId = s_id svc,
              si_serviceName = s_name svc,
              si_packageType = o_package_type ord,
              si_quantity = quantity,
              si_unitPrice = (if quantity = 0 then None else Some (unitPrice / quantity)),
              si_totalPrice = unitPrice\<rparr>];
          request =
            \<lparr>rq_customerData = customerData, rq_serviceItems = serviceItems,
             rq_currency = o_currency ord\<rparr>;
          w1 = w\<lparr>zoho_requests := zoho_requests w @ [request]\<rparr>
      in case zoho_integration en request of
           FetchFailed error \<Rightarrow> (Inl error, w1)
         | NotOk status errorText \<Rightarrow>
             (Inl (''Zoho integration failed: '' @ status @ '' - '' @ errorText), w1)
         | Unsuccessful error \<Rightarrow>
             (Inl (case error of
                     Some e \<Rightarrow> if e = [] then ''Zoho integration failed'' else e
                   | None \<Rightarrow> ''Zoho integration failed''), w1)
         | Success result \<Rightarrow> (Inr (result\<lparr>pi_transaction_id := transactionId en\<rparr>), w1))"

text \<open>
  The test of \<open>createPaymentIntent\<close> on the pricing of the service:
  \<open>service.pricing && service.pricing[packageType]\<close> is truthy.
\<close>

definition has_pricing :: "service \<Rightarrow> string \<Rightarrow> bool" where
  "has_pricing svc packageType =
     (case s_pricing svc of
        None \<Rightarrow> False
      | Some pricing \<Rightarrow>
          (case js_get pricing packageType of
             Own price \<Rightarrow> price \<noteq> 0
           | Inherited \<Rightarrow> True
           | Absent \<Rightarrow> False))"

text \<open>The message \<open>createPaymentIntent\<close> throws for an error of the order insert.\<close>

definition order_error_message :: "string \<Rightarrow> string" where
  "order_error_message msg =
     (if js_includes msg ''does not exist'' then
        ''Database schema error: Missing required columns. Please contact support.''
      else if js_includes msg ''RI_ConstraintTrigger'' then
        ''Database constraint error. Please try again or contact support.''
      else ''Failed to create order: '' @ msg)"

text \<open>
  The body of the \<open>try\<close> of \<open>createPaymentIntent\<close>, in two parts. The first is
  steps 1 to 7 as the source numbers them, up to the created invoice: it returns the
  inserted order and the result of the invoicing integration, or the error thrown.
\<close>

definition createPaymentIntent_steps_1_7 ::
  "env \<Rightarrow> world \<Rightarrow> string \<Rightarrow> string \<Rightarrow> amount \<Rightarrow> string \<Rightarrow> rat \<Rightarrow>
   (string + order \<times> payment_intent) \<times> world" where
  "createPaymentIntent_steps_1_7 en w serviceIdentifier packageType totalPrice currency quantity =
     (case (auth_error en, auth_user en) of
        (Some userError, _) \<Rightarrow> (Inl ''Authentication required. Please log in to continue.'', w)
      | (None, None) \<Rightarrow> (Inl ''Authentication required. Please log in to continue.'', w)
      | (None, Some usr) \<Rightarrow>
          if u_email_confirmed_at usr = None \<or> u_email_confirmed_at usr = Some [] then
            (Inl ''Email verification required. Please verify your email before making purchases.'', w)
          else
            (case resolveServiceId en w serviceIdentifier of
               (None, w1) \<Rightarrow>
                 (Inl (''Service not found: '' @ serviceIdentifier @
                       ''. Please check the service ID and try again.''), w1)
             | (Some serviceId, w1) \<Rightarrow>
                 (case getServiceById en w1 serviceId of
                    (Inl error, w2) \<Rightarrow> (Inl error, w2)
                  | (Inr None, w2) \<Rightarrow> (Inl (''Service data not found for ID: '' @ serviceId), w2)
                  | (Inr (Some svc), w2) \<Rightarrow>
                      if \<not> has_pricing svc packageType then
                        (Inl (''Package type '' @ [CHR 0x22] @ packageType @ [CHR 0x22] @
                              '' not available for '' @ s_name svc), w2)
                      else
                        (case maybeSingle (clients_select_error en)
                                (filter (\<lambda>c. uuid_eq (c_id c) (u_id usr)) (clients w2)) of
                           (_, Some clientError) \<Rightarrow>
                             (Inl ''Failed to load client profile. Please try again.'', w2)
                         | (None, None) \<Rightarrow>
                             (Inl ''Client profile not found. Please complete your profile setup.'', w2)
                         | (Some clientProfile, None) \<Rightarrow>
                             (let amts = calculateCurrencyAmounts en totalPrice currency;
                                  orderData =
                                    \<lparr>o_id = new_order_id en,
                                     o_client_id = u_id usr,
                                     o_service_id = serviceId,
                                     o_package_type = packageType,
                                     o_amount_usd = usd amts,
                                     o_amount_inr = inr amts,
                                     o_amount_aud = aud amts,
                                     o_currency = currency,
                                     o_status = ''pending'',
                                     o_payment_gateway = ''zoho'',
                                     o_zoho_invoice_id = None,
                                     o_zoho_customer_id = None,
                                     o_updated_at = now en\<rparr>
                              in case insert_orders en w2 orderData of
                                   (w3, (_, Some orderError)) \<Rightarrow>
                                     (Inl (order_error_message orderError), w3)
                                 | (w3, (None, None)) \<Rightarrow>
                                     (Inl ''Cannot read properties of null'', w3)
                                 | (w3, (Some ord, None)) \<Rightarrow>
                                     (case createZohoInvoice en w3 ord svc clientProfile quantity of
                                        (Inl error, w4) \<Rightarrow> (Inl error, w4)
                                      | (Inr zohoResult, w4) \<Rightarrow> (Inr (ord, zohoResult), w4)))))))"

text \<open>
  The second part is steps 8 and 9: the identifiers of the invoice and of the customer
  are written onto the order, an error of that update being logged and dropped; the
  attempt is logged; the result of step 7 is returned with the transaction identifier.
\<close>

definition createPaymentIntent_try ::
  "env \<Rightarrow> world \<Rightarrow> string \<Rightarrow> string \<Rightarrow> amount \<Rightarrow> string \<Rightarrow> rat \<Rightarrow> (string + payment_intent) \<times> world" where
  "createPaymentIntent_try en w serviceIdentifier packageType totalPrice currency quantity =
     (case createPaymentIntent_steps_1_7 en w serviceIdentifier packageType totalPrice
             currency quantity of
        (Inl error, w4) \<Rightarrow> (Inl error, w4)
      | (Inr (ord, zohoResult), w4) \<Rightarrow>
          (let w5 = fst (update_orders en w4
                     (\<lambda>r. o_id r = o_id ord)
                     (\<lambda>r. r\<lparr>o_zoho_invoice_id := Some (pi_invoice_id zohoResult),
                            o_zoho_customer_id := Some (pi_customer_id zohoResult),
                            o_updated_at := now en\<rparr>));
               w6 = logPaymentAttempt en w5 (Some (o_id ord)) ''payment_intent_created'' True None
           in (Inr (zohoResult\<lparr>pi_transaction_id := transactionId en\<rparr>), w6)))"

text \<open>
  \<open>createPaymentIntent\<close>: the \<open>catch\<close> logs the failed attempt and throws the error
  again.
\<close>

definition createPaymentIntent ::
  "env \<Rightarrow> world \<Rightarrow> string \<Rightarrow> string \<Rightarrow> amount \<Rightarrow> string \<Rightarrow> rat \<Rightarrow> (string + payment_intent) \<times> world" where
  "createPaymentIntent en w serviceIdentifier packageType totalPrice currency quantity =
     (case createPaymentIntent_try en w serviceIdentifier packageType totalPrice currency quantity of
        (Inl error, w') \<Rightarrow>
          (Inl error, logPaymentAttempt en w' None ''payment_intent_failed'' False (Some error))
      | (Inr result, w') \<Rightarrow> (Inr result, w'))"

section \<open>The invoicing integration\<close>

text \<open>
  The error of an HTTP call made with axios: the status and the message of the
  response, when there is one, and the message of the error itself.
\<close>

record axios_error =
  ax_status :: "nat option"
  ax_data_message :: "string option"
  ax_message :: string

record contact =
  ct_contact_id :: string
  ct_contact_name :: string
  ct_email :: string
  ct_company_name :: string

text \<open>
  The invoicing provider, by its answers: to the creation of a contact, and to the
  lookup of the contacts with an e-mail address (the list may be missing from the
  answer).
\<close>

record zoho_api =
  post_contacts :: "customer_data \<Rightarrow> axios_error + contact"
  get_contacts :: "string \<Rightarrow> axios_error + contact list option"

definition findZohoCustomer :: "zoho_api \<Rightarrow> string \<Rightarrow> string + contact" where
  "findZohoCustomer api email =
     (case get_contacts api email of
        Inl error \<Rightarrow> Inl (''Customer lookup failed: '' @ ax_message error)
      | Inr None \<Rightarrow> Inl ''Customer lookup failed: Customer not found''
      | Inr (Some []) \<Rightarrow> Inl ''Customer lookup failed: Customer not found''
      | Inr (Some (customer # rest)) \<Rightarrow> Inr customer)"

definition createZohoCustomer :: "zoho_api \<Rightarrow> customer_data \<Rightarrow> string + contact" where
  "createZohoCustomer api customerData =
     (case post_contacts api customerData of
        Inr customer \<Rightarrow> Inr customer
      | Inl error \<Rightarrow>
          (if ax_status error = Some 400 \<and>
              (case ax_data_message error of
                 Some msg \<Rightarrow> js_includes msg ''already exists''
               | None \<Rightarrow> False)
           then findZohoCustomer api (cd_email customerData)
           else Inl (''Customer creation failed: '' @
                     (case ax_data_message error of
                        Some msg \<Rightarrow> if msg = [] then ax_message error else msg
                      | None \<Rightarrow> ax_message error))))"

text \<open>
  The line items \<open>createZohoInvoice\<close> of the integration builds from the service items
  it is sent (the description text is left out).
\<close>

record line_item =
  li_name :: string
  li_rate :: "amount option"
  li_quantity :: rat
  li_item_total :: amount

definition lineItems :: "service_item list \<Rightarrow> line_item list" where
  "lineItems serviceItems =
     map (\<lambda>item. \<lparr>li_name = si_serviceName item, li_rate = si_unitPrice item,
                   li_quantity = si_quantity item, li_item_total = si_totalPrice item\<rparr>)
       serviceItems"

section \<open>Vocabulary of the properties\<close>

text \<open>
  The two order statuses the specification calls terminal, the webhook events that
  write \<open>pending\<close>, and the relation between an order before and after a run of
  deliveries that the status, once settled, stays settled.
\<close>

definition settled :: "string \<Rightarrow> bool" where
  "settled st \<longleftrightarrow> st = ''paid'' \<or> st = ''cancelled''"

definition sets_pending :: "http_event \<Rightarrow> bool" where
  "sets_pending event \<longleftrightarrow>
     httpMethod event = ''POST'' \<and>
     (case body event of
        Json webhookData \<Rightarrow>
          w_event_type webhookData = Some ''invoice_status_changed'' \<and>
          (case w_data webhookData of
             Some d \<Rightarrow> orderStatus (wd_status d) = ''pending''
           | None \<Rightarrow> False)
      | Unparseable msg \<Rightarrow> False)"

text \<open>
  A structurally valid delivery: a POST whose body parses and carries both the event
  type and the data. Every such event has this form when the event type is not empty.
\<close>

definition webhook_post :: "string \<Rightarrow> webhook_data \<Rightarrow> http_event" where
  "webhook_post eventType d =
     \<lparr>httpMethod = ''POST'',
      body = Json \<lparr>w_event_type = Some eventType, w_data = Some d\<rparr>\<rparr>"

text \<open>
  The datastore accepts the status update an event asks for: no error of its own, the
  trigger passes every linked order and, for a payment-received event, whose update ends
  in \<open>.single()\<close>, exactly one order is linked to the invoice.
\<close>

definition status_update_accepted :: "env \<Rightarrow> world \<Rightarrow> string \<Rightarrow> webhook_data \<Rightarrow> bool" where
  "status_update_accepted en w eventType d \<longleftrightarrow>
     orders_update_error en = None \<and>
     (\<forall>r \<in> set (orders w).
        eq_zoho_invoice_id (wd_invoice_id d) r \<longrightarrow> validate_order_data w r = None) \<and>
     (eventType = ''invoice_payment_received'' \<longrightarrow>
        length (filter (eq_zoho_invoice_id (wd_invoice_id d)) (orders w)) = 1)"

definition keeps_settled :: "order \<Rightarrow> order \<Rightarrow> bool" where
  "keeps_settled a b \<longleftrightarrow> o_id b = o_id a \<and> (settled (o_status a) \<longrightarrow> settled (o_status b))"


text \<open>
  The vocabulary of the payment intent. Two worlds have the same tables when they
  differ at most in the caches of the service manager. \<open>order_data\<close> is the row step 6
  inserts and \<open>order_row\<close> that row as the table holds it, \<open>order_amount\<close> the amount
  of an order in the currency it is paid in (the choice \<open>createZohoInvoice\<close> makes for
  \<open>unitPrice\<close>), \<open>request_for\<close> the request step 7 sends, \<open>chosen_amount\<close> the amount
  \<open>calculateCurrencyAmounts\<close> gives the chosen currency, and \<open>duplicate_reported\<close> the
  test \<open>createZohoCustomer\<close> makes on the error of the provider.
\<close>

definition same_tables :: "world \<Rightarrow> world \<Rightarrow> bool" where
  "same_tables w w' \<longleftrightarrow>
     services w' = services w \<and> clients w' = clients w \<and> orders w' = orders w \<and>
     invoices w' = invoices w \<and> notifications w' = notifications w \<and>
     purchase_audit_log w' = purchase_audit_log w \<and> zoho_requests w' = zoho_requests w \<and>
     emails w' = emails w"

definition order_data :: "env \<Rightarrow> string \<Rightarrow> string \<Rightarrow> string \<Rightarrow> amount \<Rightarrow> string \<Rightarrow> order" where
  "order_data en clientId serviceId packageType totalPrice currency =
     \<lparr>o_id = new_order_id en,
      o_client_id = clientId,
      o_service_id = serviceId,
      o_package_type = packageType,
      o_amount_usd = usd (calculateCurrencyAmounts en totalPrice currency),
      o_amount_inr = inr (calculateCurrencyAmounts en totalPrice currency),
      o_amount_aud = aud (calculateCurrencyAmounts en totalPrice currency),
      o_currency = currency,
      o_status = ''pending'',
      o_payment_gateway = ''zoho'',
      o_zoho_invoice_id = None,
      o_zoho_customer_id = None,
      o_updated_at = now en\<rparr>"

definition order_row :: "env \<Rightarrow> string \<Rightarrow> string \<Rightarrow> string \<Rightarrow> amount \<Rightarrow> string \<Rightarrow> order" where
  "order_row en clientId serviceId packageType totalPrice currency =
     stored (order_data en clientId serviceId packageType totalPrice currency)"

definition order_amount :: "order \<Rightarrow> amount" where
  "order_amount ord =
     (if o_currency ord = ''USD'' then o_amount_usd ord
      else if o_currency ord = ''INR'' then o_amount_inr ord
      else o_amount_aud ord)"

definition request_for :: "order \<Rightarrow> service \<Rightarrow> client \<Rightarrow> rat \<Rightarrow> invoice_request" where
  "request_for ord svc cl quantity =
     \<lparr>rq_customerData =
        \<lparr>cd_name = c_name cl, cd_email = c_email cl, cd_phone = c_phone cl,
         cd_company = c_company cl\<rparr>,
      rq_serviceItems =
        [\<lparr>si_serviceId = s_id svc,
          si_serviceName = s_name svc,
          si_packageType = o_package_type ord,
          si_quantity = quantity,
          si_unitPrice = (if quantity = 0 then None else Some (order_amount ord / quantity)),
          si_totalPrice = order_amount ord\<rparr>],
      rq_currency = o_currency ord\<rparr>"

definition chosen_amount :: "env \<Rightarrow> amount \<Rightarrow> string \<Rightarrow> amount" where
  "chosen_amount en totalPrice currency =
     (if currency = ''USD'' then usd (calculateCurrencyAmounts en totalPrice currency)
      else if currency = ''INR'' then inr (calculateCurrencyAmounts en totalPrice currency)
      else aud (calculateCurrencyAmounts en totalPrice currency))"

text \<open>
  Modelled from the spec: \<open>convertCurrency\<close> (\<open>utils/currency\<close>) is not among the
  sources. Its contract is that of the currency converter: it returns an amount, and
  on a failure of the rate source it falls back to returning the original amount
  rather than failing the caller. \<open>convertCurrency_returns\<close> says that the converter
  of the environment keeps this contract on the conversions of an amount from a
  currency.
\<close>

definition convertCurrency_returns :: "env \<Rightarrow> amount \<Rightarrow> string \<Rightarrow> bool" where
  "convertCurrency_returns en amount currency \<longleftrightarrow>
     list_all (\<lambda>to. case convertCurrency en amount currency to of
                       Inr converted \<Rightarrow> True
                     | Inl error \<Rightarrow> False)
       [''USD'', ''INR'', ''AUD'']"

definition duplicate_reported :: "axios_error \<Rightarrow> bool" where
  "duplicate_reported error \<longleftrightarrow>
     ax_status error = Some 400 \<and>
     (case ax_data_message error of
        Some msg \<Rightarrow> js_includes msg ''already exists''
      | None \<Rightarrow> False)"

section \<open>A concrete catalog, client, order and environment\<close>

text \<open>
  One service of the catalog, one client, one linked pending order, and an environment
  in which every outside call succeeds. The closed theorems below are evaluated on them.
\<close>

definition ex_sid :: string where
  "ex_sid = ''5f1c2a3b-4d5e-4f60-8a7b-9c0d1e2f3a4b''"

definition ex_service :: service where
  "ex_service = \<lparr>s_id = ex_sid, s_name = ''SSL & HTTPS Setup'',
     s_category = ''Security Services'',
     s_pricing = Some [(''basic'', 7), (''standard'', 10), (''enterprise'', 25)]\<rparr>"

definition ex_client :: client where
  "ex_client = \<lparr>c_id = ''client-1'', c_name = ''Asha'', c_email = ''asha@example.com'',
     c_phone = '''', c_company = ''''\<rparr>"

definition ex_order :: order where
  "ex_order = \<lparr>o_id = ''order-1'', o_client_id = ''client-1'',
     o_service_id = ex_sid, o_package_type = ''standard'',
     o_amount_usd = 10, o_amount_inr = 830, o_amount_aud = 15, o_currency = ''USD'',
     o_status = ''pending'', o_payment_gateway = ''zoho'',
     o_zoho_invoice_id = Some ''inv-1'', o_zoho_customer_id = Some ''cust-1'',
     o_updated_at = ''t0''\<rparr>"

definition ex_world :: world where
  "ex_world = \<lparr>services = [ex_service], clients = [ex_client], orders = [ex_order],
     invoices = [], notifications = [], purchase_audit_log = [], serviceCache = [],
     serviceMappingCache = None, zoho_requests = [], emails = []\<rparr>"

definition ex_intent :: payment_intent where
  "ex_intent = \<lparr>pi_invoice_id = ''inv-2'', pi_invoice_number = ''INV-2'',
     pi_payment_url = ''https://invoice.zoho.in/invoices/inv-2/payment'', pi_total = 10,
     pi_status = ''sent'', pi_customer_id = ''cust-1'', pi_transaction_id = ''''\<rparr>"

text \<open>A rate source that answers: 83 rupees and one and a half Australian dollars to the dollar.\<close>

definition ex_convert :: "amount \<Rightarrow> string \<Rightarrow> string \<Rightarrow> string + amount" where
  "ex_convert a f t =
     (if f = ''USD'' \<and> t = ''INR'' then Inr (a * 83)
      else if f = ''USD'' \<and> t = ''AUD'' then Inr (a * 3 / 2)
      else Inr a)"

definition ex_env :: env where
  "ex_env = \<lparr>now = ''t1'', transactionId = ''txn_1'', new_order_id = ''order-2'',
     auth_user = Some \<lparr>u_id = ''client-1'', u_email = ''asha@example.com'',
       u_email_confirmed_at = Some ''t0''\<rparr>,
     auth_error = None, resolve_select_error = None, services_select_error = None,
     services_fallback_error = None,
     service_by_id_error = None, clients_select_error = None, orders_insert_error = None,
     orders_update_error = None, invoices_insert_error = None,
     notifications_insert_error = None, audit_insert_error = None, email_ok = True,
     convertCurrency = ex_convert,
     zoho_integration = (\<lambda>rq. Success ex_intent)\<rparr>"

definition ex_data :: "string \<Rightarrow> string option \<Rightarrow> webhook_data" where
  "ex_data invoiceId status =
     \<lparr>wd_invoice_id = Some invoiceId, wd_invoice_number = Some ''INV-1'',
      wd_total = Some 10, wd_status = status, wd_payment_date = None\<rparr>"

definition webhook_event :: "string \<Rightarrow> string \<Rightarrow> string option \<Rightarrow> http_event" where
  "webhook_event eventType invoiceId status = webhook_post eventType (ex_data invoiceId status)"

text \<open>Two deliveries for the invoice of that order.\<close>

definition payment_received_twice :: "(env \<times> http_event) list" where
  "payment_received_twice =
     [(ex_env, webhook_event ''invoice_payment_received'' ''inv-1'' None),
      (ex_env, webhook_event ''invoice_payment_received'' ''inv-1'' None)]"

definition paid_then_sent :: "(env \<times> http_event) list" where
  "paid_then_sent =
     [(ex_env, webhook_event ''invoice_payment_received'' ''inv-1'' None),
      (ex_env, webhook_event ''invoice_status_changed'' ''inv-1'' (Some ''sent''))]"

definition paid_then_cancelled :: "(env \<times> http_event) list" where
  "paid_then_cancelled =
     [(ex_env, webhook_event ''invoice_payment_received'' ''inv-1'' None),
      (ex_env, webhook_event ''invoice_status_changed'' ''inv-1'' (Some ''cancelled''))]"

text \<open>The same order once the payment has been received.\<close>

definition ex_world_paid :: world where
  "ex_world_paid = ex_world\<lparr>orders := [ex_order\<lparr>o_status := ''paid''\<rparr>]\<rparr>"

text \<open>
  Two environments with an outage: one in which the receipt insert, the notification
  insert and the mail function fail, one in which the update of the orders table fails.
\<close>

definition ex_env_downstream_down :: env where
  "ex_env_downstream_down =
     ex_env\<lparr>invoices_insert_error := Some ''relation invoices: permission denied'',
            notifications_insert_error := Some ''connection reset'',
            email_ok := False\<rparr>"

definition ex_env_update_down :: env where
  "ex_env_update_down = ex_env\<lparr>orders_update_error := Some ''connection reset''\<rparr>"

text \<open>
  A catalog entry whose identifier Postgres accepts as a \<open>uuid\<close> but which has no
  version digit from 1 to 5; a rate source that is down; a catalog store that is down.
\<close>


definition ex_legacy_service :: service where
  "ex_legacy_service =
     ex_service\<lparr>s_id := ''00000000-0000-0000-0000-000000000001'', s_name := ''SSL''\<rparr>"

definition ex_env_rates_down :: env where
  "ex_env_rates_down = ex_env\<lparr>convertCurrency := (\<lambda>a f t. Inl ''rates unavailable'')\<rparr>"

definition ex_env_catalog_down :: env where
  "ex_env_catalog_down = ex_env\<lparr>resolve_select_error := Some ''connection reset''\<rparr>"

text \<open>
  The order a purchase of the standard tier for 10 dollars inserts, and a provider
  that answers every creation of a contact with a duplicate error.
\<close>

definition ex_new_order :: order where
  "ex_new_order =
     \<lparr>o_id = ''order-2'', o_client_id = ''client-1'', o_service_id = ex_sid,
      o_package_type = ''standard'', o_amount_usd = 10, o_amount_inr = 830, o_amount_aud = 15,
      o_currency = ''USD'', o_status = ''pending'', o_payment_gateway = ''zoho'',
      o_zoho_invoice_id = None, o_zoho_customer_id = None, o_updated_at = ''t1''\<rparr>"

definition ex_api_duplicate :: "(axios_error + contact list option) \<Rightarrow> zoho_api" where
  "ex_api_duplicate lookup =
     \<lparr>post_contacts = (\<lambda>cd. Inl \<lparr>ax_status = Some 400,
         ax_data_message = Some ''The customer already exists.'',
         ax_message = ''Request failed with status code 400''\<rparr>),
      get_contacts = (\<lambda>email. lookup)\<rparr>"

definition ex_customer :: customer_data where
  "ex_customer = \<lparr>cd_name = ''Asha'', cd_email = ''asha@example.com'', cd_phone = '''',
     cd_company = ''''\<rparr>"

definition ex_contact :: contact where
  "ex_contact = \<lparr>ct_contact_id = ''cust-1'', ct_contact_name = ''Asha'',
     ct_email = ''asha@example.com'', ct_company_name = ''''\<rparr>"

section \<open>The orders table: what an update leaves behind\<close>

lemma validate_order_data_status:
  "validate_order_data w (r\<lparr>o_status := s, o_updated_at := t\<rparr>) = validate_order_data w r"
  by (simp add: validate_order_data_def)

lemma first_error_None_iff: "first_error chk xs = None \<longleftrightarrow> (\<forall>x \<in> set xs. chk x = None)"
  by (induction xs) (auto split: option.splits)

lemma update_orders_accepted:
  assumes "orders_update_error en = None"
    and "\<forall>r \<in> set (orders w). m r \<longrightarrow> validate_order_data w (v r) = None"
  shows "update_orders en w m v =
    (w\<lparr>orders := map (\<lambda>r. if m r then v r else r) (orders w)\<rparr>,
     (Some (map v (filter m (orders w))), None))"
proof -
  have "first_error (validate_order_data w) (map v (filter m (orders w))) = None"
    using assms(2) by (simp add: first_error_None_iff)
  then show ?thesis
    using assms(1) by (simp add: update_orders_def)
qed

lemma update_orders_cases:
  obtains (rejected) e where "update_orders en w m v = (w, (None, Some e))"
  | (accepted) "update_orders en w m v =
      (w\<lparr>orders := map (\<lambda>r. if m r then v r else r) (orders w)\<rparr>,
       (Some (map v (filter m (orders w))), None))"
proof (cases "orders_update_error en")
  case (Some e)
  then have "update_orders en w m v = (w, (None, Some e))"
    by (simp add: update_orders_def)
  then show ?thesis by (rule that(1))
next
  case None
  show ?thesis
  proof (cases "first_error (validate_order_data w) (map v (filter m (orders w)))")
    case (Some e)
    with None have "update_orders en w m v = (w, (None, Some e))"
      by (simp add: update_orders_def)
    then show ?thesis by (rule that(1))
  next
    case no_error: None
    with None show ?thesis
      by (intro that(2)) (simp add: update_orders_def)
  qed
qed

lemma update_orders_single_cases:
  obtains (rejected) e where "update_orders_single en w m v = (w, (None, Some e))"
  | (accepted) row where "update_orders_single en w m v =
      (w\<lparr>orders := map (\<lambda>r. if m r then v r else r) (orders w)\<rparr>, (Some row, None))"
      and "map v (filter m (orders w)) = [row]"
proof (cases rule: update_orders_cases [of en w m v])
  case (rejected e)
  then have "update_orders_single en w m v = (w, (None, Some e))"
    by (simp add: update_orders_single_def)
  then show ?thesis by (rule that(1))
next
  case accepted
  show ?thesis
  proof (cases "map v (filter m (orders w))")
    case Nil
    with accepted show ?thesis
      by (intro that(1)) (simp add: update_orders_single_def)
  next
    case (Cons row rest)
    show ?thesis
    proof (cases rest)
      case Nil
      with Cons accepted show ?thesis
        by (intro that(2) [of row]) (simp_all add: update_orders_single_def)
    next
      case (Cons a b)
      with \<open>map v (filter m (orders w)) = row # rest\<close> accepted show ?thesis
        by (intro that(1)) (simp add: update_orders_single_def)
    qed
  qed
qed

lemma handlePaymentReceived_orders:
  "orders (snd (handlePaymentReceived en w d)) = orders w \<or>
   orders (snd (handlePaymentReceived en w d)) =
     map (\<lambda>r. if eq_zoho_invoice_id (wd_invoice_id d) r
               then r\<lparr>o_status := ''paid'', o_updated_at := now en\<rparr> else r) (orders w)"
proof (cases rule: update_orders_single_cases [of en w "eq_zoho_invoice_id (wd_invoice_id d)"
      "\<lambda>r. r\<lparr>o_status := ''paid'', o_updated_at := now en\<rparr>"])
  case (rejected e)
  then show ?thesis by (simp add: handlePaymentReceived_def)
next
  case (accepted row)
  then show ?thesis
    by (simp add: handlePaymentReceived_def Let_def sendNotificationEmail_def
        split: option.splits)
qed

lemma handleInvoiceStatusChange_orders:
  "orders (snd (handleInvoiceStatusChange en w d)) = orders w \<or>
   orders (snd (handleInvoiceStatusChange en w d)) =
     map (\<lambda>r. if eq_zoho_invoice_id (wd_invoice_id d) r
               then r\<lparr>o_status := orderStatus (wd_status d), o_updated_at := now en\<rparr> else r)
       (orders w)"
proof (cases rule: update_orders_cases [of en w "eq_zoho_invoice_id (wd_invoice_id d)"
      "\<lambda>r. r\<lparr>o_status := orderStatus (wd_status d), o_updated_at := now en\<rparr>"])
  case (rejected e)
  then show ?thesis by (simp add: handleInvoiceStatusChange_def)
next
  case accepted
  then show ?thesis by (simp add: handleInvoiceStatusChange_def)
qed


section \<open>Order status under webhook deliveries\<close>

lemma keeps_settled_refl: "list_all2 keeps_settled xs xs"
  by (simp add: list_all2_same keeps_settled_def)

lemma keeps_settled_map:
  "settled st \<Longrightarrow>
   list_all2 keeps_settled xs (map (\<lambda>r. if m r then r\<lparr>o_status := st, o_updated_at := t\<rparr> else r) xs)"
  by (simp add: list_all2_map2 list_all2_same keeps_settled_def)

lemma keeps_settled_trans:
  assumes "list_all2 keeps_settled xs ys" and "list_all2 keeps_settled ys zs"
  shows "list_all2 keeps_settled xs zs"
  by (rule list_all2_trans [OF _ assms]) (auto simp: keeps_settled_def)

lemma handler_orders:
  "orders (snd (handler en w event)) = orders w \<or>
   (\<exists>d webhookData. body event = Json webhookData \<and> w_data webhookData = Some d \<and> httpMethod event = ''POST'' \<and>
     ((w_event_type webhookData = Some ''invoice_payment_received'' \<and>
       orders (snd (handler en w event)) = orders (snd (handlePaymentReceived en w d))) \<or>
      (w_event_type webhookData = Some ''invoice_status_changed'' \<and>
       orders (snd (handler en w event)) = orders (snd (handleInvoiceStatusChange en w d)))))"
  by (auto simp: handler_def split: event_body.splits option.splits prod.splits sum.splits)

lemma handler_keeps_settled:
  assumes "\<not> sets_pending event"
  shows "list_all2 keeps_settled (orders w) (orders (snd (handler en w event)))"
proof -
  consider (same) "orders (snd (handler en w event)) = orders w"
    | (received) d where "orders (snd (handler en w event)) = orders (snd (handlePaymentReceived en w d))"
    | (changed) d webhookData where "body event = Json webhookData" "w_data webhookData = Some d"
        "httpMethod event = ''POST''" "w_event_type webhookData = Some ''invoice_status_changed''"
        "orders (snd (handler en w event)) = orders (snd (handleInvoiceStatusChange en w d))"
    using handler_orders [of en w event] by blast
  then show ?thesis
  proof cases
    case same
    then show ?thesis by (simp add: keeps_settled_refl)
  next
    case (received d)
    then show ?thesis
      using handlePaymentReceived_orders [of en w d]
      by (auto simp: keeps_settled_refl settled_def intro!: keeps_settled_map)
  next
    case (changed d webhookData)
    with assms have "orderStatus (wd_status d) \<noteq> ''pending''"
      by (simp add: sets_pending_def)
    then have "settled (orderStatus (wd_status d))"
      by (auto simp: orderStatus_def settled_def split: if_splits)
    with changed(5) show ?thesis
      using handleInvoiceStatusChange_orders [of en w d]
      by (auto simp: keeps_settled_refl intro!: keeps_settled_map)
  qed
qed


text \<open>
  C2, as the code has it. For every order whose status is paid or cancelled, no run
  of webhook deliveries that holds only payment-received events, status-changed
  events whose provider status is \<open>paid\<close> or \<open>cancelled\<close>, and events of other types
  moves the status out of the set of paid and cancelled, whatever the order of the
  deliveries and whatever the datastore answers. The orders keep their place and
  their identifier.
\<close>

theorem settled_orders_stay_settled:
  "(\<forall>p \<in> set deliveries. \<not> sets_pending (snd p)) \<Longrightarrow>
   list_all2 keeps_settled (orders w) (orders (deliver w deliveries))"
proof (induction deliveries arbitrary: w)
  case Nil
  then show ?case by (simp add: keeps_settled_refl)
next
  case (Cons p rest)
  obtain en event where p: "p = (en, event)" by (cases p)
  with Cons.prems have "\<not> sets_pending event" by simp
  then have step: "list_all2 keeps_settled (orders w) (orders (snd (handler en w event)))"
    by (rule handler_keeps_settled)
  from Cons.prems have "list_all2 keeps_settled (orders (snd (handler en w event)))
      (orders (deliver (snd (handler en w event)) rest))"
    by (intro Cons.IH) simp
  with step show ?case
    by (simp add: p keeps_settled_trans)
qed


theorem settled_orders_stay_settled_witness:
  "map o_status (orders ex_world_paid) = [''paid''] \<and>
   map (\<lambda>p. sets_pending (snd p)) paid_then_cancelled = [False, False] \<and>
   list_all2 keeps_settled (orders ex_world_paid) (orders (deliver ex_world_paid paid_then_cancelled)) \<and>
   map o_status (orders (deliver ex_world_paid paid_then_cancelled)) = [''cancelled'']"
proof -
  have sp: "map (\<lambda>p. sets_pending (snd p)) paid_then_cancelled = [False, False]"
    by code_simp
  have h: "\<forall>p \<in> set paid_then_cancelled. \<not> sets_pending (snd p)"
    by code_simp
  have before: "map o_status (orders ex_world_paid) = [''paid'']"
    by code_simp
  have after: "map o_status (orders (deliver ex_world_paid paid_then_cancelled)) = [''cancelled'']"
    by code_simp
  from settled_orders_stay_settled [OF h, of ex_world_paid] sp before after
  show ?thesis by simp
qed

text \<open>
  C2 as the specification states it fails: the order is paid after the payment-received
  delivery, and the status-changed delivery with provider status \<open>sent\<close> writes
  \<open>pending\<close> over it.
\<close>

theorem paid_order_back_to_pending:
  "map o_status (orders (deliver ex_world [hd paid_then_sent])) = [''paid''] \<and>
   map o_status (orders (deliver ex_world paid_then_sent)) = [''pending'']"
  by code_simp

section \<open>Repeated payment-received deliveries\<close>

lemma validate_order_data_tables:
  "services w' = services w \<Longrightarrow> clients w' = clients w \<Longrightarrow>
   validate_order_data w' r = validate_order_data w r"
  by (simp add: validate_order_data_def)

lemma eq_zoho_invoice_id_status:
  "eq_zoho_invoice_id i (r\<lparr>o_status := s, o_updated_at := t\<rparr>) = eq_zoho_invoice_id i r"
  by (simp add: eq_zoho_invoice_id_def)

lemma filter_rewritten:
  "filter (eq_zoho_invoice_id i)
     (map (\<lambda>r. if eq_zoho_invoice_id i r then r\<lparr>o_status := s, o_updated_at := t\<rparr> else r) xs) =
   map (\<lambda>r. r\<lparr>o_status := s, o_updated_at := t\<rparr>) (filter (eq_zoho_invoice_id i) xs)"
  by (induction xs) (simp_all add: eq_zoho_invoice_id_status)

lemma update_orders_single_accepted:
  assumes "orders_update_error en = None"
    and "filter m (orders w) = [r]"
    and "validate_order_data w (v r) = None"
  shows "update_orders_single en w m v =
    (w\<lparr>orders := map (\<lambda>r. if m r then v r else r) (orders w)\<rparr>, (Some (v r), None))"
proof -
  have "\<forall>x \<in> set (orders w). m x \<longrightarrow> validate_order_data w (v x) = None"
  proof (intro ballI impI)
    fix x assume "x \<in> set (orders w)" "m x"
    then have "x \<in> set (filter m (orders w))" by simp
    with assms(2) have "x = r" by simp
    with assms(3) show "validate_order_data w (v x) = None" by simp
  qed
  from update_orders_accepted [OF assms(1) this] assms(2) show ?thesis
    by (simp add: update_orders_single_def)
qed

lemma handlePaymentReceived_accepted:
  assumes "orders_update_error en = None"
    and "filter (eq_zoho_invoice_id (wd_invoice_id d)) (orders w) = [r]"
    and "validate_order_data w r = None"
  shows "fst (handlePaymentReceived en w d) = Inr ()"
    and "orders (snd (handlePaymentReceived en w d)) =
      map (\<lambda>r. if eq_zoho_invoice_id (wd_invoice_id d) r
                then r\<lparr>o_status := ''paid'', o_updated_at := now en\<rparr> else r) (orders w)"
    and "length (invoices (snd (handlePaymentReceived en w d))) =
      length (invoices w) + (if invoices_insert_error en = None then 1 else 0)"
    and "length (notifications (snd (handlePaymentReceived en w d))) =
      length (notifications w) + (if notifications_insert_error en = None then 1 else 0)"
    and "services (snd (handlePaymentReceived en w d)) = services w"
    and "clients (snd (handlePaymentReceived en w d)) = clients w"
proof -
  have "validate_order_data w (r\<lparr>o_status := ''paid'', o_updated_at := now en\<rparr>) = None"
    using assms(3) by (simp add: validate_order_data_status)
  note upd = update_orders_single_accepted
    [where v = "\<lambda>r. r\<lparr>o_status := ''paid'', o_updated_at := now en\<rparr>", OF assms(1) assms(2) this]
  show "fst (handlePaymentReceived en w d) = Inr ()"
    by (simp add: handlePaymentReceived_def upd Let_def)
  show "orders (snd (handlePaymentReceived en w d)) =
      map (\<lambda>r. if eq_zoho_invoice_id (wd_invoice_id d) r
                then r\<lparr>o_status := ''paid'', o_updated_at := now en\<rparr> else r) (orders w)"
    by (simp add: handlePaymentReceived_def upd Let_def sendNotificationEmail_def split: option.splits)
  show "length (invoices (snd (handlePaymentReceived en w d))) =
      length (invoices w) + (if invoices_insert_error en = None then 1 else 0)"
    by (simp add: handlePaymentReceived_def upd Let_def sendNotificationEmail_def split: option.splits)
  show "length (notifications (snd (handlePaymentReceived en w d))) =
      length (notifications w) + (if notifications_insert_error en = None then 1 else 0)"
    by (simp add: handlePaymentReceived_def upd Let_def sendNotificationEmail_def split: option.splits)
  show "services (snd (handlePaymentReceived en w d)) = services w"
    by (simp add: handlePaymentReceived_def upd Let_def sendNotificationEmail_def split: option.splits)
  show "clients (snd (handlePaymentReceived en w d)) = clients w"
    by (simp add: handlePaymentReceived_def upd Let_def sendNotificationEmail_def split: option.splits)
qed

lemma handler_payment_received:
  "handler en w (webhook_post ''invoice_payment_received'' d) =
     (case handlePaymentReceived en w d of
        (Inl error, w') \<Rightarrow> (Failed error, w')
      | (Inr u, w') \<Rightarrow> (Processed ''invoice_payment_received'', w'))"
  by (simp add: handler_def webhook_post_def)

lemma snd_handler_payment_received:
  "snd (handler en w (webhook_post ''invoice_payment_received'' d)) = snd (handlePaymentReceived en w d)"
  by (simp add: handler_payment_received split: prod.splits sum.splits)

text \<open>
  C1, as the code has it. Take a payment-received event whose invoice is linked to
  exactly one order that the trigger accepts, delivered twice with the update of the
  orders table accepted both times. The first delivery makes the linked order paid and
  the second leaves every status as it is, so there is one transition to paid. Each
  delivery appends one receipt to \<open>invoices\<close> unless that insert fails, and one row to
  \<open>notifications\<close> unless that insert fails: nothing is keyed on the order or the
  invoice, and two accepted deliveries leave two receipts and two notifications.
\<close>

theorem each_delivery_adds_a_receipt:
  assumes "filter (eq_zoho_invoice_id (wd_invoice_id d)) (orders w) = [r]"
    and "validate_order_data w r = None"
    and "orders_update_error en1 = None" and "orders_update_error en2 = None"
  shows "(let w1 = snd (handler en1 w (webhook_post ''invoice_payment_received'' d));
              w2 = snd (handler en2 w1 (webhook_post ''invoice_payment_received'' d))
          in map o_status (orders w1) =
               map (\<lambda>x. if eq_zoho_invoice_id (wd_invoice_id d) x then ''paid'' else o_status x) (orders w) \<and>
             map o_status (orders w2) = map o_status (orders w1) \<and>
             length (invoices w2) = length (invoices w) +
               (if invoices_insert_error en1 = None then 1 else 0) +
               (if invoices_insert_error en2 = None then 1 else 0) \<and>
             length (notifications w2) = length (notifications w) +
               (if notifications_insert_error en1 = None then 1 else 0) +
               (if notifications_insert_error en2 = None then 1 else 0))"
proof -
  let ?i = "wd_invoice_id d"
  let ?w1 = "snd (handlePaymentReceived en1 w d)"
  let ?w2 = "snd (handlePaymentReceived en2 ?w1 d)"
  let ?r1 = "r\<lparr>o_status := ''paid'', o_updated_at := now en1\<rparr>"
  note first = handlePaymentReceived_accepted [OF assms(3) assms(1) assms(2)]
  have one: "filter (eq_zoho_invoice_id ?i) (orders ?w1) = [?r1]"
    by (simp add: first(2) filter_rewritten assms(1))
  have "validate_order_data ?w1 ?r1 = validate_order_data w ?r1"
    by (rule validate_order_data_tables) (simp_all add: first)
  then have ok: "validate_order_data ?w1 ?r1 = None"
    by (simp add: validate_order_data_status assms(2))
  note second = handlePaymentReceived_accepted [OF assms(4) one ok]
  have s1: "map o_status (orders ?w1) =
      map (\<lambda>x. if eq_zoho_invoice_id ?i x then ''paid'' else o_status x) (orders w)"
    by (simp add: first(2))
  have s2: "map o_status (orders ?w2) = map o_status (orders ?w1)"
    by (simp add: second(2) first(2) eq_zoho_invoice_id_status)
  have i2: "length (invoices ?w2) = length (invoices w) +
      (if invoices_insert_error en1 = None then 1 else 0) +
      (if invoices_insert_error en2 = None then 1 else 0)"
    by (simp only: second(3) first(3))
  have n2: "length (notifications ?w2) = length (notifications w) +
      (if notifications_insert_error en1 = None then 1 else 0) +
      (if notifications_insert_error en2 = None then 1 else 0)"
    by (simp only: second(4) first(4))
  from s1 s2 i2 n2 show ?thesis
    by (simp only: Let_def snd_handler_payment_received)
qed


theorem each_delivery_adds_a_receipt_witness:
  "filter (eq_zoho_invoice_id (wd_invoice_id (ex_data ''inv-1'' None))) (orders ex_world) = [ex_order] \<and>
   validate_order_data ex_world ex_order = None \<and>
   orders_update_error ex_env = None \<and>
   map o_status (orders ex_world) = [''pending''] \<and>
   map o_status (orders (snd (handler ex_env ex_world (webhook_post ''invoice_payment_received'' (ex_data ''inv-1'' None))))) = [''paid''] \<and>
   length (invoices (snd (handler ex_env (snd (handler ex_env ex_world (webhook_post ''invoice_payment_received'' (ex_data ''inv-1'' None))))
     (webhook_post ''invoice_payment_received'' (ex_data ''inv-1'' None))))) = 2"
proof -
  have a: "filter (eq_zoho_invoice_id (wd_invoice_id (ex_data ''inv-1'' None))) (orders ex_world) = [ex_order]"
    by code_simp
  have b: "validate_order_data ex_world ex_order = None"
    by code_simp
  have c: "orders_update_error ex_env = None"
    by code_simp
  have d: "map o_status (orders ex_world) = [''pending'']"
    by code_simp
  have e: "map o_status (orders (snd (handler ex_env ex_world (webhook_post ''invoice_payment_received'' (ex_data ''inv-1'' None))))) = [''paid'']"
    by code_simp
  have f: "length (invoices (snd (handler ex_env (snd (handler ex_env ex_world (webhook_post ''invoice_payment_received'' (ex_data ''inv-1'' None))))
     (webhook_post ''invoice_payment_received'' (ex_data ''inv-1'' None))))) = 2"
    by code_simp
  from each_delivery_adds_a_receipt [OF a b c c] a b c d e f show ?thesis
    by simp
qed

text \<open>
  C1 as the specification states it fails: after the second delivery of the same event
  the order has two receipts, and the client two notifications and two mails.
\<close>

theorem second_delivery_second_receipt:
  "length (invoices (deliver ex_world [hd payment_received_twice])) = 1 \<and>
   length (invoices (deliver ex_world payment_received_twice)) = 2 \<and>
   length (notifications (deliver ex_world payment_received_twice)) = 2 \<and>
   length (emails (deliver ex_world payment_received_twice)) = 2 \<and>
   map i_order_id (invoices (deliver ex_world payment_received_twice)) = [''order-1'', ''order-1'']"
  by code_simp


section \<open>The answer of the webhook handler\<close>

lemma handler_status_changed:
  "handler en w (webhook_post ''invoice_status_changed'' d) =
     (case handleInvoiceStatusChange en w d of
        (Inl error, w') \<Rightarrow> (Failed error, w')
      | (Inr u, w') \<Rightarrow> (Processed ''invoice_status_changed'', w'))"
  by (simp add: handler_def webhook_post_def)

lemma fst_handler_payment_received:
  "fst (handler en w (webhook_post ''invoice_payment_received'' d)) =
     (case fst (handlePaymentReceived en w d) of
        Inl error \<Rightarrow> Failed error
      | Inr u \<Rightarrow> Processed ''invoice_payment_received'')"
  by (simp add: handler_payment_received split: prod.splits sum.splits)

lemma fst_handler_status_changed:
  "fst (handler en w (webhook_post ''invoice_status_changed'' d)) =
     (case fst (handleInvoiceStatusChange en w d) of
        Inl error \<Rightarrow> Failed error
      | Inr u \<Rightarrow> Processed ''invoice_status_changed'')"
  by (simp add: handler_status_changed split: prod.splits sum.splits)

lemma handler_other:
  "eventType \<noteq> [] \<Longrightarrow> eventType \<noteq> ''invoice_payment_received'' \<Longrightarrow>
   eventType \<noteq> ''invoice_status_changed'' \<Longrightarrow>
   handler en w (webhook_post eventType d) = (Processed eventType, w)"
  by (simp add: handler_def webhook_post_def)

lemma update_orders_error:
  "orders_update_error en = Some e \<Longrightarrow> update_orders en w m v = (w, (None, Some e))"
  by (simp add: update_orders_def)

lemma handleInvoiceStatusChange_accepted:
  assumes "orders_update_error en = None"
    and "\<forall>r \<in> set (orders w). eq_zoho_invoice_id (wd_invoice_id d) r \<longrightarrow> validate_order_data w r = None"
  shows "fst (handleInvoiceStatusChange en w d) = Inr ()"
proof -
  have "\<forall>r \<in> set (orders w). eq_zoho_invoice_id (wd_invoice_id d) r \<longrightarrow>
      validate_order_data w (r\<lparr>o_status := orderStatus (wd_status d), o_updated_at := now en\<rparr>) = None"
    using assms(2) by (simp add: validate_order_data_status)
  from update_orders_accepted [OF assms(1) this] show ?thesis
    by (simp add: handleInvoiceStatusChange_def)
qed

lemma update_orders_single_no_row:
  assumes "filter matches (orders w) = []"
  shows "update_orders_single en w matches values =
    (w, (None, Some (case orders_update_error en of
                       Some e \<Rightarrow> e
                     | None \<Rightarrow> ''JSON object requested, multiple (or no) rows returned'')))"
  using assms
  by (cases "orders_update_error en") (simp_all add: update_orders_single_def update_orders_def)

lemma update_orders_single_data_or_error:
  "snd (update_orders_single en w matches values) \<noteq> (None, None)"
  by (simp add: update_orders_single_def split: prod.splits option.splits list.splits)

text \<open>
  C3 at a payment-received webhook whose invoice is linked to no order. The statement
  ends in \<open>.single()\<close>, which answers an empty result with an error; the error is
  thrown before the test \<open>if (!order)\<close>, whose branch logs and ignores the event, so
  that branch is never taken (\<open>update_orders_single_data_or_error\<close>). The webhook is
  answered with 500 and the error, whatever the environment, and the tables are left
  as they were.
\<close>

theorem unmatched_invoice_answered_500:
  assumes "filter (eq_zoho_invoice_id (wd_invoice_id d)) (orders w) = []"
  shows "handler en w (webhook_post ''invoice_payment_received'' d) =
           (Failed (case orders_update_error en of
                      Some e \<Rightarrow> e
                    | None \<Rightarrow> ''JSON object requested, multiple (or no) rows returned''), w) \<and>
         statusCode (fst (handler en w (webhook_post ''invoice_payment_received'' d))) = 500"
proof -
  have "handlePaymentReceived en w d =
      (Inl (case orders_update_error en of
              Some e \<Rightarrow> e
            | None \<Rightarrow> ''JSON object requested, multiple (or no) rows returned''), w)"
    by (simp add: handlePaymentReceived_def update_orders_single_no_row [OF assms])
  then show ?thesis
    by (simp add: handler_payment_received)
qed


theorem unmatched_invoice_answered_500_witness:
  "filter (eq_zoho_invoice_id (wd_invoice_id (ex_data ''inv-404'' None))) (orders ex_world) = [] \<and>
   orders_update_error ex_env = None \<and>
   handler ex_env ex_world (webhook_post ''invoice_payment_received'' (ex_data ''inv-404'' None)) =
     (Failed ''JSON object requested, multiple (or no) rows returned'', ex_world) \<and>
   statusCode (fst (handler ex_env ex_world
     (webhook_post ''invoice_payment_received'' (ex_data ''inv-404'' None)))) = 500"
proof -
  have a: "filter (eq_zoho_invoice_id (wd_invoice_id (ex_data ''inv-404'' None))) (orders ex_world) = []"
    by code_simp
  have b: "orders_update_error ex_env = None"
    by code_simp
  from unmatched_invoice_answered_500 [OF a, of ex_env] a b show ?thesis
    by simp
qed

text \<open>
  Every other structurally valid webhook is answered as claimed. It is answered with
  200 and \<open>{success: true, eventType}\<close> whenever the datastore accepts the status
  update the event asks for, whatever becomes of the receipt insert, the notification
  insert and the mail (the environment is arbitrary in them); an event of any other
  type is always answered so; and when the update of a payment-received or
  status-changed event answers with an error of the datastore, an unrecoverable
  processing error, the webhook is answered with 500 and that error.
\<close>

lemma valid_webhook_answer:
  assumes "eventType \<noteq> []"
  shows "(status_update_accepted en w eventType d \<longrightarrow>
            fst (handler en w (webhook_post eventType d)) = Processed eventType \<and>
            statusCode (fst (handler en w (webhook_post eventType d))) = 200) \<and>
         (eventType \<noteq> ''invoice_payment_received'' \<and> eventType \<noteq> ''invoice_status_changed'' \<longrightarrow>
            fst (handler en w (webhook_post eventType d)) = Processed eventType) \<and>
         (orders_update_error en = Some e \<and>
          (eventType = ''invoice_payment_received'' \<or> eventType = ''invoice_status_changed'') \<longrightarrow>
            fst (handler en w (webhook_post eventType d)) = Failed e \<and>
            statusCode (fst (handler en w (webhook_post eventType d))) = 500)"
proof (intro conjI impI)
  assume acc: "status_update_accepted en w eventType d"
  show ok: "fst (handler en w (webhook_post eventType d)) = Processed eventType"
  proof (cases "eventType = ''invoice_payment_received''")
    case True
    with acc obtain r where one: "filter (eq_zoho_invoice_id (wd_invoice_id d)) (orders w) = [r]"
      by (auto simp: status_update_accepted_def length_Suc_conv)
    then have "r \<in> set (filter (eq_zoho_invoice_id (wd_invoice_id d)) (orders w))"
      by simp
    with acc have "validate_order_data w r = None"
      by (simp add: status_update_accepted_def)
    with acc one have "fst (handlePaymentReceived en w d) = Inr ()"
      by (intro handlePaymentReceived_accepted(1)) (simp_all add: status_update_accepted_def)
    with True show ?thesis
      by (simp add: fst_handler_payment_received)
  next
    case False
    show ?thesis
    proof (cases "eventType = ''invoice_status_changed''")
      case True
      from acc have "fst (handleInvoiceStatusChange en w d) = Inr ()"
        by (intro handleInvoiceStatusChange_accepted) (simp_all add: status_update_accepted_def)
      with True show ?thesis
        by (simp add: fst_handler_status_changed)
    next
      case other: False
      with False assms show ?thesis
        by (simp add: handler_other)
    qed
  qed
  then show "statusCode (fst (handler en w (webhook_post eventType d))) = 200"
    by simp
next
  assume "eventType \<noteq> ''invoice_payment_received'' \<and> eventType \<noteq> ''invoice_status_changed''"
  with assms show "fst (handler en w (webhook_post eventType d)) = Processed eventType"
    by (simp add: handler_other)
next
  assume err: "orders_update_error en = Some e \<and>
    (eventType = ''invoice_payment_received'' \<or> eventType = ''invoice_status_changed'')"
  then show failed: "fst (handler en w (webhook_post eventType d)) = Failed e"
    by (auto simp: fst_handler_payment_received fst_handler_status_changed handlePaymentReceived_def
        handleInvoiceStatusChange_def update_orders_single_def update_orders_error)
  then show "statusCode (fst (handler en w (webhook_post eventType d))) = 500"
    by simp
qed


lemma valid_webhook_answer_example:
  "''invoice_payment_received'' \<noteq> [] \<and>
   status_update_accepted ex_env_downstream_down ex_world ''invoice_payment_received'' (ex_data ''inv-1'' None) \<and>
   invoices_insert_error ex_env_downstream_down \<noteq> None \<and>
   notifications_insert_error ex_env_downstream_down \<noteq> None \<and>
   statusCode (fst (handler ex_env_downstream_down ex_world
     (webhook_post ''invoice_payment_received'' (ex_data ''inv-1'' None)))) = 200 \<and>
   orders_update_error ex_env_update_down = Some ''connection reset'' \<and>
   statusCode (fst (handler ex_env_update_down ex_world
     (webhook_post ''invoice_payment_received'' (ex_data ''inv-1'' None)))) = 500 \<and>
   fst (handler ex_env ex_world (webhook_post ''invoice_created'' (ex_data ''inv-1'' None))) =
     Processed ''invoice_created''"
proof -
  have t: "''invoice_payment_received'' \<noteq> []" "''invoice_created'' \<noteq> []"
    by simp_all
  have acc: "status_update_accepted ex_env_downstream_down ex_world ''invoice_payment_received''
      (ex_data ''inv-1'' None)"
    by code_simp
  have down: "invoices_insert_error ex_env_downstream_down \<noteq> None"
    "notifications_insert_error ex_env_downstream_down \<noteq> None"
    by code_simp+
  have err: "orders_update_error ex_env_update_down = Some ''connection reset''"
    by code_simp
  from valid_webhook_answer [OF t(1), of ex_env_downstream_down ex_world "ex_data ''inv-1'' None"]
    valid_webhook_answer [OF t(1), of ex_env_update_down ex_world "ex_data ''inv-1'' None" "''connection reset''"]
    valid_webhook_answer [OF t(2), of ex_env ex_world "ex_data ''inv-1'' None"]
    acc down err
  show ?thesis by simp
qed

section \<open>What the validation trigger lets through\<close>

text \<open>
  The trigger accepts a row exactly when its service and its client exist, its package
  type is one of the three tiers, and its amounts in dollars and in rupees are
  positive. The amount in Australian dollars is not looked at.
\<close>

lemma validate_order_data_None_iff:
  "validate_order_data w r = None \<longleftrightarrow>
     (\<exists>s \<in> set (services w). uuid_eq (s_id s) (o_service_id r)) \<and>
     (\<exists>c \<in> set (clients w). uuid_eq (c_id c) (o_client_id r)) \<and>
     o_package_type r \<in> {''basic'', ''standard'', ''enterprise''} \<and>
     0 < o_amount_usd r \<and> 0 < o_amount_inr r"
  by (auto simp: validate_order_data_def)


text \<open>
  C7 at a row the trigger should reject. The order has a positive amount in dollars
  and in rupees and the amount 0 in Australian dollars: the trigger returns the row,
  and the insert persists it.
\<close>

theorem trigger_accepts_zero_aud:
  "validate_order_data ex_world (ex_order\<lparr>o_id := ''order-3'', o_amount_aud := 0\<rparr>) = None \<and>
   map o_amount_aud (orders (fst (insert_orders ex_env ex_world
     (ex_order\<lparr>o_id := ''order-3'', o_amount_aud := 0\<rparr>)))) = [15, 0]"
  by code_simp

section \<open>Resolving a canonical identifier\<close>

lemma maybeSingle_distinct:
  assumes "distinct (map f xs)"
  shows "maybeSingle None (filter (\<lambda>x. f x = k) xs) =
    (if k \<in> f ` set xs then (Some (the (find (\<lambda>x. f x = k) xs)), None) else (None, None))"
  using assms
proof (induction xs)
  case Nil
  then show ?case by (simp add: maybeSingle_def)
next
  case (Cons x xs)
  show ?case
  proof (cases "f x = k")
    case True
    with Cons.prems have "k \<notin> f ` set xs" by auto
    then have "filter (\<lambda>x. f x = k) xs = []"
      by (auto simp: filter_empty_conv)
    with True show ?thesis by (simp add: maybeSingle_def)
  next
    case False
    with Cons show ?thesis by simp
  qed
qed


text \<open>
  C5, as the code has it. The catalog identifiers are uuid values, distinct as such
  (\<open>services.id\<close> is the primary key). For an identifier of the shape \<open>uuidRegex\<close>
  tests, in either letter case: \<open>resolveServiceId\<close> returns the identifier verbatim,
  as the caller spelt it, when the existence query answers without an error and a
  catalog entry has that uuid value, and \<open>null\<close> in every other case, a datastore
  error included; it leaves the caches as they are, and its result does not depend on
  the alias map.
\<close>

theorem resolve_canonical_id:
  assumes "uuidRegex_test serviceIdentifier"
    and "distinct (map (\<lambda>s. uuid_text (s_id s)) (services w))"
  shows "fst (resolveServiceId en w serviceIdentifier) =
           (if resolve_select_error en = None \<and>
               uuid_text serviceIdentifier \<in> (\<lambda>s. uuid_text (s_id s)) ` set (services w)
            then Some serviceIdentifier else None) \<and>
         snd (resolveServiceId en w serviceIdentifier) = w \<and>
         fst (resolveServiceId en (w\<lparr>serviceMappingCache := m\<rparr>) serviceIdentifier) =
           fst (resolveServiceId en w serviceIdentifier)"
proof (cases "resolve_select_error en")
  case (Some e)
  with assms(1) show ?thesis
    by (simp add: resolveServiceId_def maybeSingle_def)
next
  case None
  with assms(1) maybeSingle_distinct [OF assms(2), of "uuid_text serviceIdentifier"]
  show ?thesis
    by (simp add: resolveServiceId_def uuid_eq_def)
qed


theorem resolve_canonical_id_witness:
  "uuidRegex_test ex_sid \<and> uuidRegex_test ''5F1C2A3B-4D5E-4F60-8A7B-9C0D1E2F3A4B'' \<and>
   distinct (map (\<lambda>s. uuid_text (s_id s)) (services ex_world)) \<and>
   fst (resolveServiceId ex_env ex_world ex_sid) = Some ex_sid \<and>
   fst (resolveServiceId ex_env ex_world ''5F1C2A3B-4D5E-4F60-8A7B-9C0D1E2F3A4B'') =
     Some ''5F1C2A3B-4D5E-4F60-8A7B-9C0D1E2F3A4B'' \<and>
   fst (resolveServiceId ex_env ex_world ''5f1c2a3b-4d5e-4f60-8a7b-9c0d1e2f3a4c'') = None \<and>
   fst (resolveServiceId ex_env_catalog_down ex_world ex_sid) = None"
proof -
  let ?f = "\<lambda>s. uuid_text (s_id s)"
  have a: "uuidRegex_test ex_sid" "uuidRegex_test ''5F1C2A3B-4D5E-4F60-8A7B-9C0D1E2F3A4B''"
    "uuidRegex_test ''5f1c2a3b-4d5e-4f60-8a7b-9c0d1e2f3a4c''"
    by code_simp+
  have b: "distinct (map ?f (services ex_world))"
    by code_simp
  have c: "resolve_select_error ex_env = None" "resolve_select_error ex_env_catalog_down \<noteq> None"
    "uuid_text ex_sid \<in> ?f ` set (services ex_world)"
    "uuid_text ''5F1C2A3B-4D5E-4F60-8A7B-9C0D1E2F3A4B'' \<in> ?f ` set (services ex_world)"
    "uuid_text ''5f1c2a3b-4d5e-4f60-8a7b-9c0d1e2f3a4c'' \<notin> ?f ` set (services ex_world)"
    by code_simp+
  from resolve_canonical_id [OF a(1) b, of ex_env] resolve_canonical_id [OF a(2) b, of ex_env]
    resolve_canonical_id [OF a(3) b, of ex_env]
    resolve_canonical_id [OF a(1) b, of ex_env_catalog_down] a b c
  show ?thesis by simp
qed

text \<open>
  C5 as the specification states it fails in its consequence
  \<open>resolve(entry.id) == entry.id\<close> for every catalog entry. The uuid column takes any
  uuid value, the regular expression only those with a version digit from 1 to 5 and
  a variant digit among 8, 9, a, b: the identifier of any other entry goes to the alias
  map, which has no such key, and resolves to \<open>null\<close> with the catalog store answering.
\<close>

theorem existing_id_not_resolved:
  "map s_id (services (ex_world\<lparr>services := [ex_legacy_service]\<rparr>)) =
     [''00000000-0000-0000-0000-000000000001''] \<and>
   uuidRegex_test ''00000000-0000-0000-0000-000000000001'' = False \<and>
   resolve_select_error ex_env = None \<and> services_select_error ex_env = None \<and>
   fst (resolveServiceId ex_env (ex_world\<lparr>services := [ex_legacy_service]\<rparr>)
     ''00000000-0000-0000-0000-000000000001'') = None"
  by code_simp

section \<open>A customer the provider already has\<close>

text \<open>
  C8, as the code has it. \<open>createZohoCustomer\<close> first posts the contact. When the
  provider answers with status 400 and a message that says the customer already
  exists, the result is that of the lookup by e-mail: the first contact of the answer
  when there is one; when the lookup finds no contact or fails, the error
  \<open>Customer lookup failed\<close>.
\<close>

theorem duplicate_customer_lookup:
  assumes "post_contacts api customerData = Inl error" and "duplicate_reported error"
  shows "createZohoCustomer api customerData = findZohoCustomer api (cd_email customerData) \<and>
         (case get_contacts api (cd_email customerData) of
            Inr (Some (customer # rest)) \<Rightarrow> createZohoCustomer api customerData = Inr customer
          | Inr (Some []) \<Rightarrow>
              createZohoCustomer api customerData = Inl ''Customer lookup failed: Customer not found''
          | Inr None \<Rightarrow>
              createZohoCustomer api customerData = Inl ''Customer lookup failed: Customer not found''
          | Inl lookupError \<Rightarrow>
              createZohoCustomer api customerData =
                Inl (''Customer lookup failed: '' @ ax_message lookupError))"
proof -
  from assms have "createZohoCustomer api customerData = findZohoCustomer api (cd_email customerData)"
    by (simp add: createZohoCustomer_def duplicate_reported_def)
  then show ?thesis
    by (simp add: findZohoCustomer_def split: sum.splits option.splits list.splits)
qed


theorem duplicate_customer_lookup_witness:
  "post_contacts (ex_api_duplicate (Inr (Some [ex_contact]))) ex_customer =
     Inl \<lparr>ax_status = Some 400, ax_data_message = Some ''The customer already exists.'',
          ax_message = ''Request failed with status code 400''\<rparr> \<and>
   duplicate_reported \<lparr>ax_status = Some 400, ax_data_message = Some ''The customer already exists.'',
          ax_message = ''Request failed with status code 400''\<rparr> \<and>
   createZohoCustomer (ex_api_duplicate (Inr (Some [ex_contact]))) ex_customer = Inr ex_contact"
proof -
  let ?e = "\<lparr>ax_status = Some 400, ax_data_message = Some ''The customer already exists.'',
          ax_message = ''Request failed with status code 400''\<rparr>"
  have a: "post_contacts (ex_api_duplicate (Inr (Some [ex_contact]))) ex_customer = Inl ?e"
    by (simp add: ex_api_duplicate_def)
  have b: "duplicate_reported ?e"
    by code_simp
  have c: "get_contacts (ex_api_duplicate (Inr (Some [ex_contact]))) (cd_email ex_customer) =
      Inr (Some [ex_contact])"
    by (simp add: ex_api_duplicate_def)
  from duplicate_customer_lookup [OF a b, THEN conjunct2] a b c show ?thesis
    by simp
qed

text \<open>
  C8 as the specification states it fails: the provider reports a duplicate, the lookup
  by e-mail finds no contact (or times out), and the caller gets an error.
\<close>

theorem duplicate_customer_surfaced_as_error:
  "createZohoCustomer (ex_api_duplicate (Inr (Some []))) ex_customer =
     Inl ''Customer lookup failed: Customer not found'' \<and>
   createZohoCustomer (ex_api_duplicate (Inl \<lparr>ax_status = None, ax_data_message = None,
       ax_message = ''timeout of 15000ms exceeded''\<rparr>)) ex_customer =
     Inl ''Customer lookup failed: timeout of 15000ms exceeded''"
  by code_simp

section \<open>The amounts in the three currencies\<close>

lemma calculateCurrencyAmounts_converted:
  "convertCurrency en amount ''USD'' ''INR'' = Inr i \<Longrightarrow>
   convertCurrency en amount ''USD'' ''AUD'' = Inr a \<Longrightarrow>
   calculateCurrencyAmounts en amount ''USD'' =
     \<lparr>usd = toFixed2 amount, inr = toFixed2 i, aud = toFixed2 a\<rparr>"
  "convertCurrency en amount ''INR'' ''USD'' = Inr u \<Longrightarrow>
   convertCurrency en amount ''INR'' ''AUD'' = Inr a \<Longrightarrow>
   calculateCurrencyAmounts en amount ''INR'' =
     \<lparr>usd = toFixed2 u, inr = toFixed2 amount, aud = toFixed2 a\<rparr>"
  "convertCurrency en amount ''AUD'' ''USD'' = Inr u \<Longrightarrow>
   convertCurrency en amount ''AUD'' ''INR'' = Inr i \<Longrightarrow>
   calculateCurrencyAmounts en amount ''AUD'' =
     \<lparr>usd = toFixed2 u, inr = toFixed2 i, aud = toFixed2 amount\<rparr>"
  by (simp_all add: calculateCurrencyAmounts_def)

lemma calculateCurrencyAmounts_fallback:
  "convertCurrency en amount ''USD'' ''INR'' = Inl e \<or> convertCurrency en amount ''USD'' ''AUD'' = Inl e \<Longrightarrow>
   calculateCurrencyAmounts en amount ''USD'' = \<lparr>usd = amount, inr = amount, aud = amount\<rparr>"
  "convertCurrency en amount ''INR'' ''USD'' = Inl e \<or> convertCurrency en amount ''INR'' ''AUD'' = Inl e \<Longrightarrow>
   calculateCurrencyAmounts en amount ''INR'' = \<lparr>usd = amount, inr = amount, aud = amount\<rparr>"
  "convertCurrency en amount ''AUD'' ''USD'' = Inl e \<or> convertCurrency en amount ''AUD'' ''INR'' = Inl e \<Longrightarrow>
   calculateCurrencyAmounts en amount ''AUD'' = \<lparr>usd = amount, inr = amount, aud = amount\<rparr>"
proof -
  show "convertCurrency en amount ''USD'' ''INR'' = Inl e \<or> convertCurrency en amount ''USD'' ''AUD'' = Inl e \<Longrightarrow>
   calculateCurrencyAmounts en amount ''USD'' = \<lparr>usd = amount, inr = amount, aud = amount\<rparr>"
    by (cases "convertCurrency en amount ''USD'' ''INR''")
      (auto simp: calculateCurrencyAmounts_def)
  show "convertCurrency en amount ''INR'' ''USD'' = Inl e \<or> convertCurrency en amount ''INR'' ''AUD'' = Inl e \<Longrightarrow>
   calculateCurrencyAmounts en amount ''INR'' = \<lparr>usd = amount, inr = amount, aud = amount\<rparr>"
    by (cases "convertCurrency en amount ''INR'' ''USD''")
      (auto simp: calculateCurrencyAmounts_def)
  show "convertCurrency en amount ''AUD'' ''USD'' = Inl e \<or> convertCurrency en amount ''AUD'' ''INR'' = Inl e \<Longrightarrow>
   calculateCurrencyAmounts en amount ''AUD'' = \<lparr>usd = amount, inr = amount, aud = amount\<rparr>"
    by (cases "convertCurrency en amount ''AUD'' ''USD''")
      (auto simp: calculateCurrencyAmounts_def)
qed

text \<open>
  C6, as the code has it. The amount of the chosen currency never goes through the
  converter: it is the total price rounded to two decimals, and the two other amounts
  are the conversions of the total price, rounded likewise. When either conversion
  throws, the three amounts are the total price as given, and nothing is thrown.
\<close>

theorem calculated_amounts:
  "(convertCurrency en amount ''USD'' ''INR'' = Inr i \<and> convertCurrency en amount ''USD'' ''AUD'' = Inr a \<longrightarrow>
      calculateCurrencyAmounts en amount ''USD'' =
        \<lparr>usd = toFixed2 amount, inr = toFixed2 i, aud = toFixed2 a\<rparr>) \<and>
   (convertCurrency en amount ''INR'' ''USD'' = Inr u \<and> convertCurrency en amount ''INR'' ''AUD'' = Inr a \<longrightarrow>
      calculateCurrencyAmounts en amount ''INR'' =
        \<lparr>usd = toFixed2 u, inr = toFixed2 amount, aud = toFixed2 a\<rparr>) \<and>
   (convertCurrency en amount ''AUD'' ''USD'' = Inr u \<and> convertCurrency en amount ''AUD'' ''INR'' = Inr i \<longrightarrow>
      calculateCurrencyAmounts en amount ''AUD'' =
        \<lparr>usd = toFixed2 u, inr = toFixed2 i, aud = toFixed2 amount\<rparr>) \<and>
   (convertCurrency en amount ''USD'' ''INR'' = Inl e \<or> convertCurrency en amount ''USD'' ''AUD'' = Inl e \<longrightarrow>
      calculateCurrencyAmounts en amount ''USD'' = \<lparr>usd = amount, inr = amount, aud = amount\<rparr>) \<and>
   (convertCurrency en amount ''INR'' ''USD'' = Inl e \<or> convertCurrency en amount ''INR'' ''AUD'' = Inl e \<longrightarrow>
      calculateCurrencyAmounts en amount ''INR'' = \<lparr>usd = amount, inr = amount, aud = amount\<rparr>) \<and>
   (convertCurrency en amount ''AUD'' ''USD'' = Inl e \<or> convertCurrency en amount ''AUD'' ''INR'' = Inl e \<longrightarrow>
      calculateCurrencyAmounts en amount ''AUD'' = \<lparr>usd = amount, inr = amount, aud = amount\<rparr>)"
  by (intro conjI impI calculateCurrencyAmounts_converted calculateCurrencyAmounts_fallback)
    (erule conjunct1 conjunct2 | assumption)+


theorem calculated_amounts_witness:
  "convertCurrency ex_env 10 ''USD'' ''INR'' = Inr 830 \<and>
   convertCurrency ex_env 10 ''USD'' ''AUD'' = Inr 15 \<and>
   calculateCurrencyAmounts ex_env 10 ''USD'' = \<lparr>usd = 10, inr = 830, aud = 15\<rparr> \<and>
   convertCurrency ex_env_rates_down 10 ''USD'' ''INR'' = Inl ''rates unavailable'' \<and>
   calculateCurrencyAmounts ex_env_rates_down 10 ''USD'' = \<lparr>usd = 10, inr = 10, aud = 10\<rparr>"
proof -
  have a: "convertCurrency ex_env 10 ''USD'' ''INR'' = Inr 830"
    "convertCurrency ex_env 10 ''USD'' ''AUD'' = Inr 15"
    "convertCurrency ex_env_rates_down 10 ''USD'' ''INR'' = Inl ''rates unavailable''"
    by (simp_all add: ex_env_def ex_env_rates_down_def ex_convert_def)
  have b: "toFixed2 10 = 10" "toFixed2 830 = 830" "toFixed2 15 = 15"
    by code_simp+
  from calculated_amounts [where en = ex_env and amount = 10 and i = 830 and a = 15]
    calculated_amounts [where en = ex_env_rates_down and amount = 10 and e = "''rates unavailable''"]
    a b
  show ?thesis by simp
qed

text \<open>
  C6 as the specification states it fails: for a total price of 10.001 dollars the
  amount in dollars is 10, not the total price.
\<close>

theorem chosen_amount_is_rounded:
  "usd (calculateCurrencyAmounts ex_env (10001 / 1000) ''USD'') = 10 \<and>
   (10 :: amount) \<noteq> 10001 / 1000"
  by code_simp


section \<open>The payment intent\<close>

lemma same_tables_refl: "same_tables w w"
  by (simp add: same_tables_def)

lemma same_tables_trans: "same_tables w w1 \<Longrightarrow> same_tables w1 w2 \<Longrightarrow> same_tables w w2"
  by (simp add: same_tables_def)

lemma same_tables_serviceCache: "same_tables w (w\<lparr>serviceCache := c\<rparr>)"
  by (simp add: same_tables_def)

lemma same_tables_serviceMappingCache: "same_tables w (w\<lparr>serviceMappingCache := c\<rparr>)"
  by (simp add: same_tables_def)

lemma getAllServices_tables: "same_tables w (snd (getAllServices en w))"
  by (simp add: getAllServices_def same_tables_refl same_tables_serviceCache split: option.splits)

lemma createServiceMapping_tables: "same_tables w (snd (createServiceMapping en w))"
proof (cases "serviceMappingCache w")
  case (Some m)
  then show ?thesis by (simp add: createServiceMapping_def same_tables_refl)
next
  case None
  obtain res w1 where g: "getAllServices en w = (res, w1)" by (cases "getAllServices en w")
  with getAllServices_tables [of w en] have t: "same_tables w w1" by simp
  show ?thesis
  proof (cases res)
    case (Inl e)
    with None g t show ?thesis by (simp add: createServiceMapping_def)
  next
    case (Inr svcs)
    with None g show ?thesis
      by (simp add: createServiceMapping_def Let_def
          same_tables_trans [OF t same_tables_serviceMappingCache])
  qed
qed

lemma resolveServiceId_tables: "same_tables w (snd (resolveServiceId en w i))"
proof (cases "uuidRegex_test i")
  case True
  then show ?thesis
    by (simp add: resolveServiceId_def same_tables_refl split: prod.splits option.splits)
next
  case False
  obtain m w1 where c: "createServiceMapping en w = (m, w1)" by (cases "createServiceMapping en w")
  with createServiceMapping_tables [of w en] have "same_tables w w1" by simp
  with False c show ?thesis
    by (simp add: resolveServiceId_def split: js_prop.splits)
qed

lemma getServiceById_tables: "same_tables w (snd (getServiceById en w i))"
  by (simp add: getServiceById_def same_tables_refl same_tables_serviceCache
      split: prod.splits option.splits)

lemma zoho_reply_case_pair:
  "(case x of FetchFailed e \<Rightarrow> (f e, W) | NotOk a b \<Rightarrow> (g a b, W)
    | Unsuccessful u \<Rightarrow> (h u, W) | Success r \<Rightarrow> (k r, W)) =
   (case x of FetchFailed e \<Rightarrow> f e | NotOk a b \<Rightarrow> g a b
    | Unsuccessful u \<Rightarrow> h u | Success r \<Rightarrow> k r, W)"
  by (cases x) simp_all

lemma createZohoInvoice_eq:
  "createZohoInvoice en w ord svc cl q =
     (case zoho_integration en (request_for ord svc cl q) of
        FetchFailed error \<Rightarrow> Inl error
      | NotOk status errorText \<Rightarrow> Inl (''Zoho integration failed: '' @ status @ '' - '' @ errorText)
      | Unsuccessful error \<Rightarrow>
          Inl (case error of
                 Some e \<Rightarrow> if e = [] then ''Zoho integration failed'' else e
               | None \<Rightarrow> ''Zoho integration failed'')
      | Success result \<Rightarrow> Inr (result\<lparr>pi_transaction_id := transactionId en\<rparr>),
      w\<lparr>zoho_requests := zoho_requests w @ [request_for ord svc cl q]\<rparr>)"
  unfolding createZohoInvoice_def request_for_def order_amount_def Let_def
  by (rule zoho_reply_case_pair)

lemma createZohoInvoice_world:
  "snd (createZohoInvoice en w ord svc cl q) =
     w\<lparr>zoho_requests := zoho_requests w @ [request_for ord svc cl q]\<rparr>"
  by (simp add: createZohoInvoice_eq)

lemma createZohoInvoice_result:
  "fst (createZohoInvoice en w ord svc cl q) = Inr zr \<Longrightarrow>
   \<exists>reply. zoho_integration en (request_for ord svc cl q) = Success reply \<and>
     zr = reply\<lparr>pi_transaction_id := transactionId en\<rparr>"
  by (cases "zoho_integration en (request_for ord svc cl q)")
    (auto simp: createZohoInvoice_eq)

lemma createZohoInvoice_fst_world:
  "fst (createZohoInvoice en w ord svc cl q) = fst (createZohoInvoice en w' ord svc cl q)"
  by (simp add: createZohoInvoice_eq)

lemma insert_orders_accepted:
  assumes "insert_orders en w row = (w3, (Some ord, None))"
  shows "ord = stored row \<and> w3 = w\<lparr>orders := orders w @ [stored row]\<rparr> \<and>
         validate_order_data w row = None"
proof (cases "validate_order_data w row")
  case (Some e)
  with assms show ?thesis by (simp add: insert_orders_def)
next
  case None
  with assms show ?thesis
    by (cases "orders_insert_error en") (auto simp: insert_orders_def)
qed

lemma steps_1_7_success:
  assumes "createPaymentIntent_steps_1_7 en w sid pkg totalPrice cur q = (Inr (ord, zr), w4)"
  obtains usr serviceId svc cl w2 where
    "auth_user en = Some usr" and "same_tables w w2" and "has_pricing svc pkg" and
    "ord = order_row en (u_id usr) serviceId pkg totalPrice cur" and
    "w4 = w2\<lparr>orders := orders w2 @ [ord],
             zoho_requests := zoho_requests w2 @ [request_for ord svc cl q]\<rparr>" and
    "fst (createZohoInvoice en w2 ord svc cl q) = Inr zr"
proof -
  note d = createPaymentIntent_steps_1_7_def
  have ae: "auth_error en = None"
    using assms by (cases "auth_error en") (simp_all add: d)
  then obtain usr where usr: "auth_user en = Some usr"
    using assms by (cases "auth_user en") (simp_all add: d)
  have conf: "u_email_confirmed_at usr \<noteq> None" "u_email_confirmed_at usr \<noteq> Some []"
    using assms ae usr
    by (cases "u_email_confirmed_at usr = None \<or> u_email_confirmed_at usr = Some []";
        simp add: d)+
  obtain rs w1 where r: "resolveServiceId en w sid = (rs, w1)" by (cases "resolveServiceId en w sid")
  obtain serviceId where rs: "rs = Some serviceId"
    using assms ae usr conf r by (cases rs) (simp_all add: d)
  obtain gs w2 where g: "getServiceById en w1 serviceId = (gs, w2)"
    by (cases "getServiceById en w1 serviceId")
  obtain go where gs': "gs = Inr go"
    using assms ae usr conf r rs g by (cases gs) (simp_all add: d)
  obtain svc where gs: "gs = Inr (Some svc)"
    using assms ae usr conf r rs g gs' by (cases go) (simp_all add: d)
  have hp: "has_pricing svc pkg"
    using assms ae usr conf r rs g gs by (cases "has_pricing svc pkg") (simp_all add: d)
  obtain cd ce where
    ms: "maybeSingle (clients_select_error en) (filter (\<lambda>c. uuid_eq (c_id c) (u_id usr)) (clients w2)) = (cd, ce)"
    by (cases "maybeSingle (clients_select_error en) (filter (\<lambda>c. uuid_eq (c_id c) (u_id usr)) (clients w2))")
  have ce: "ce = None"
    using assms ae usr conf r rs g gs hp ms by (cases ce; cases cd) (simp_all add: d)
  obtain cl where cl: "cd = Some cl"
    using assms ae usr conf r rs g gs hp ms ce by (cases cd) (simp_all add: d)
  let ?raw = "order_data en (u_id usr) serviceId pkg totalPrice cur"
  let ?row = "order_row en (u_id usr) serviceId pkg totalPrice cur"
  obtain w3 od oe where ins: "insert_orders en w2 ?raw = (w3, (od, oe))"
    by (cases "insert_orders en w2 ?raw") auto
  note pre = ae usr conf r rs g gs hp ms ce cl
  have oe: "oe = None"
    using assms pre ins by (cases oe; cases od) (simp_all add: d Let_def order_data_def)
  obtain ord' where od: "od = Some ord'"
    using assms pre ins oe by (cases od) (simp_all add: d Let_def order_data_def)
  obtain zres w4' where z: "createZohoInvoice en w3 ord' svc cl q = (zres, w4')"
    by (cases "createZohoInvoice en w3 ord' svc cl q")
  have zr: "zres = Inr zr \<and> ord = ord' \<and> w4 = w4'"
    using assms pre ins oe od z by (cases zres) (simp_all add: d Let_def order_data_def)
  from insert_orders_accepted [OF ins [unfolded oe od]]
  have ord': "ord' = ?row" and w3: "w3 = w2\<lparr>orders := orders w2 @ [?row]\<rparr>"
    by (simp_all add: order_row_def)
  from resolveServiceId_tables [of w en sid] r have "same_tables w w1" by simp
  moreover from getServiceById_tables [of w1 en serviceId] g have "same_tables w1 w2" by simp
  ultimately have st: "same_tables w w2" by (rule same_tables_trans)
  from z createZohoInvoice_world [of en w3 ord' svc cl q]
  have "w4' = w3\<lparr>zoho_requests := zoho_requests w3 @ [request_for ord' svc cl q]\<rparr>"
    by simp
  with w3 ord' zr have w4: "w4 = w2\<lparr>orders := orders w2 @ [ord],
      zoho_requests := zoho_requests w2 @ [request_for ord svc cl q]\<rparr>"
    by simp
  from z zr have "fst (createZohoInvoice en w3 ord svc cl q) = Inr zr"
    by simp
  then have fz: "fst (createZohoInvoice en w2 ord svc cl q) = Inr zr"
    by (simp add: createZohoInvoice_fst_world [of en w3 ord svc cl q w2])
  from ord' zr have o: "ord = ?row" by simp
  from usr st hp o w4 fz show ?thesis
    by (rule that)
qed


lemma order_amount_order_row:
  "order_amount (order_row en uid sid pkg totalPrice cur) = chosen_amount en totalPrice cur"
  by (simp add: order_amount_def order_row_def order_data_def stored_def chosen_amount_def)

lemma calculateCurrencyAmounts_cases:
  "calculateCurrencyAmounts en amount currency = \<lparr>usd = amount, inr = amount, aud = amount\<rparr> \<or>
   (\<exists>x y. calculateCurrencyAmounts en amount currency =
      (if currency = ''USD'' then \<lparr>usd = toFixed2 amount, inr = toFixed2 x, aud = toFixed2 y\<rparr>
       else if currency = ''INR'' then \<lparr>usd = toFixed2 x, inr = toFixed2 amount, aud = toFixed2 y\<rparr>
       else if currency = ''AUD'' then \<lparr>usd = toFixed2 x, inr = toFixed2 y, aud = toFixed2 amount\<rparr>
       else \<lparr>usd = toFixed2 amount, inr = toFixed2 amount, aud = toFixed2 amount\<rparr>))"
proof (cases "currency = ''USD''")
  case True
  then show ?thesis
    by (cases "convertCurrency en amount ''USD'' ''INR''"; cases "convertCurrency en amount ''USD'' ''AUD''")
      (auto simp: calculateCurrencyAmounts_def)
next
  case nu: False
  show ?thesis
  proof (cases "currency = ''INR''")
    case True
    then show ?thesis
      by (cases "convertCurrency en amount ''INR'' ''USD''"; cases "convertCurrency en amount ''INR'' ''AUD''")
        (auto simp: calculateCurrencyAmounts_def)
  next
    case ni: False
    show ?thesis
    proof (cases "currency = ''AUD''")
      case True
      then show ?thesis
        by (cases "convertCurrency en amount ''AUD'' ''USD''"; cases "convertCurrency en amount ''AUD'' ''INR''")
          (auto simp: calculateCurrencyAmounts_def)
    next
      case False
      with nu ni show ?thesis by (simp add: calculateCurrencyAmounts_def)
    qed
  qed
qed

lemma chosen_amount_cases:
  "chosen_amount en totalPrice currency = toFixed2 totalPrice \<or>
   chosen_amount en totalPrice currency = totalPrice"
  using calculateCurrencyAmounts_cases [of en totalPrice currency]
  by (auto simp: chosen_amount_def split: if_splits)

lemma logPaymentAttempt_tables:
  "orders (logPaymentAttempt en w oid a s m) = orders w"
  "zoho_requests (logPaymentAttempt en w oid a s m) = zoho_requests w"
  by (simp_all add: logPaymentAttempt_def split: option.splits)

lemma createPaymentIntent_success:
  assumes "fst (createPaymentIntent_steps_1_7 en w sid pkg totalPrice cur q) = Inr (ord, zr)"
  shows "createPaymentIntent en w sid pkg totalPrice cur q =
    (Inr (zr\<lparr>pi_transaction_id := transactionId en\<rparr>),
     logPaymentAttempt en
       (fst (update_orders en (snd (createPaymentIntent_steps_1_7 en w sid pkg totalPrice cur q))
          (\<lambda>r. o_id r = o_id ord)
          (\<lambda>r. r\<lparr>o_zoho_invoice_id := Some (pi_invoice_id zr),
                 o_zoho_customer_id := Some (pi_customer_id zr),
                 o_updated_at := now en\<rparr>)))
       (Some (o_id ord)) ''payment_intent_created'' True None)"
proof -
  obtain res w4 where c: "createPaymentIntent_steps_1_7 en w sid pkg totalPrice cur q = (res, w4)"
    by (cases "createPaymentIntent_steps_1_7 en w sid pkg totalPrice cur q")
  with assms have "res = Inr (ord, zr)" by simp
  with c show ?thesis
    by (simp add: createPaymentIntent_def createPaymentIntent_try_def Let_def)
qed

lemma createPaymentIntent_failure:
  assumes "fst (createPaymentIntent_steps_1_7 en w sid pkg totalPrice cur q) = Inl e"
  shows "createPaymentIntent en w sid pkg totalPrice cur q =
    (Inl e, logPaymentAttempt en (snd (createPaymentIntent_steps_1_7 en w sid pkg totalPrice cur q))
       None ''payment_intent_failed'' False (Some e))"
proof -
  obtain res w4 where c: "createPaymentIntent_steps_1_7 en w sid pkg totalPrice cur q = (res, w4)"
    by (cases "createPaymentIntent_steps_1_7 en w sid pkg totalPrice cur q")
  with assms have "res = Inl e" by simp
  with c show ?thesis
    by (simp add: createPaymentIntent_def createPaymentIntent_try_def)
qed

lemma createPaymentIntent_Inr:
  assumes "fst (createPaymentIntent en w sid pkg totalPrice cur q) = Inr r"
  shows "\<exists>ord zr. fst (createPaymentIntent_steps_1_7 en w sid pkg totalPrice cur q) = Inr (ord, zr)"
proof (cases "fst (createPaymentIntent_steps_1_7 en w sid pkg totalPrice cur q)")
  case (Inl e)
  from createPaymentIntent_failure [OF this] assms show ?thesis by simp
next
  case (Inr p)
  then show ?thesis by (cases p) simp
qed

text \<open>
  C9. When steps 1 to 7 have returned the inserted order and the invoice, and the
  update that links them fails, \<open>createPaymentIntent\<close> returns the payment intent of
  step 7; the orders table is the one before the call with the new order appended as
  it was inserted, pending and unlinked; and the request to the invoicing integration
  stays sent.
\<close>

theorem link_failure_is_only_logged:
  assumes "fst (createPaymentIntent_steps_1_7 en w sid pkg totalPrice cur q) = Inr (ord, zr)"
    and "orders_update_error en = Some e"
  shows "fst (createPaymentIntent en w sid pkg totalPrice cur q) =
           Inr (zr\<lparr>pi_transaction_id := transactionId en\<rparr>) \<and>
         orders (snd (createPaymentIntent en w sid pkg totalPrice cur q)) = orders w @ [ord] \<and>
         o_status ord = ''pending'' \<and> o_zoho_invoice_id ord = None \<and>
         o_zoho_customer_id ord = None \<and>
         length (zoho_requests (snd (createPaymentIntent en w sid pkg totalPrice cur q))) =
           length (zoho_requests w) + 1"
proof -
  let ?core = "createPaymentIntent_steps_1_7 en w sid pkg totalPrice cur q"
  from assms(1) have "?core = (Inr (ord, zr), snd ?core)"
    by (simp add: prod_eq_iff)
  then obtain usr :: user and serviceId svc cl w2 where
    st: "same_tables w w2" and
    ord: "ord = order_row en (u_id usr) serviceId pkg totalPrice cur" and
    w4: "snd ?core = w2\<lparr>orders := orders w2 @ [ord],
        zoho_requests := zoho_requests w2 @ [request_for ord svc cl q]\<rparr>"
    by (rule steps_1_7_success) blast
  note full = createPaymentIntent_success [OF assms(1)]
  have upd: "fst (update_orders en x m v) = x" for x m v
    by (simp add: update_orders_error [OF assms(2)])
  from st have t: "orders w2 = orders w" "zoho_requests w2 = zoho_requests w"
    by (simp_all add: same_tables_def)
  have "orders (snd (createPaymentIntent en w sid pkg totalPrice cur q)) = orders w @ [ord]"
    by (simp add: full upd logPaymentAttempt_tables w4 t)
  moreover have "length (zoho_requests (snd (createPaymentIntent en w sid pkg totalPrice cur q))) =
      length (zoho_requests w) + 1"
    by (simp add: full upd logPaymentAttempt_tables w4 t)
  moreover have "o_status ord = ''pending''" "o_zoho_invoice_id ord = None"
    "o_zoho_customer_id ord = None"
    by (simp_all add: ord order_row_def order_data_def stored_def)
  ultimately show ?thesis
    by (simp add: full)
qed



theorem link_failure_is_only_logged_witness:
  "fst (createPaymentIntent_steps_1_7 ex_env_update_down ex_world ex_sid ''standard'' 10 ''USD'' 1) =
     Inr (ex_new_order, ex_intent\<lparr>pi_transaction_id := ''txn_1''\<rparr>) \<and>
   orders_update_error ex_env_update_down = Some ''connection reset'' \<and>
   fst (createPaymentIntent ex_env_update_down ex_world ex_sid ''standard'' 10 ''USD'' 1) =
     Inr (ex_intent\<lparr>pi_transaction_id := ''txn_1''\<rparr>) \<and>
   orders (snd (createPaymentIntent ex_env_update_down ex_world ex_sid ''standard'' 10 ''USD'' 1)) =
     [ex_order, ex_new_order]"
proof -
  have a: "fst (createPaymentIntent_steps_1_7 ex_env_update_down ex_world ex_sid ''standard'' 10 ''USD'' 1) =
     Inr (ex_new_order, ex_intent\<lparr>pi_transaction_id := ''txn_1''\<rparr>)"
    by code_simp
  have b: "orders_update_error ex_env_update_down = Some ''connection reset''"
    by code_simp
  have c: "transactionId ex_env_update_down = ''txn_1''" "orders ex_world = [ex_order]"
    by code_simp+
  from link_failure_is_only_logged [OF a b] a b c show ?thesis
    by simp
qed

section \<open>The amount persisted and the amount invoiced\<close>

lemma order_amount_linked:
  "order_amount (r\<lparr>o_zoho_invoice_id := a, o_zoho_customer_id := b, o_updated_at := c\<rparr>) =
   order_amount r"
  by (simp add: order_amount_def)

lemma update_orders_zoho_requests:
  "zoho_requests (fst (update_orders en w m v)) = zoho_requests w"
  by (cases rule: update_orders_cases [of en w m v]) simp_all

lemma update_orders_link_amounts:
  "map order_amount (orders (fst (update_orders en w m
      (\<lambda>r. r\<lparr>o_zoho_invoice_id := a, o_zoho_customer_id := b, o_updated_at := c\<rparr>)))) =
   map order_amount (orders w)"
  by (cases rule: update_orders_cases [of en w m
        "\<lambda>r. r\<lparr>o_zoho_invoice_id := a, o_zoho_customer_id := b, o_updated_at := c\<rparr>"])
    (simp_all add: order_amount_linked)

lemma chosen_amount_converter_returns:
  assumes "convertCurrency_returns en totalPrice currency"
  shows "chosen_amount en totalPrice currency = toFixed2 totalPrice"
proof -
  obtain u where u: "convertCurrency en totalPrice currency ''USD'' = Inr u"
    using assms by (cases "convertCurrency en totalPrice currency ''USD''")
      (simp_all add: convertCurrency_returns_def)
  obtain i where i: "convertCurrency en totalPrice currency ''INR'' = Inr i"
    using assms by (cases "convertCurrency en totalPrice currency ''INR''")
      (simp_all add: convertCurrency_returns_def)
  obtain a where a: "convertCurrency en totalPrice currency ''AUD'' = Inr a"
    using assms by (cases "convertCurrency en totalPrice currency ''AUD''")
      (simp_all add: convertCurrency_returns_def)
  show ?thesis
  proof (cases "currency = ''USD''")
    case True
    with i a show ?thesis
      by (simp add: chosen_amount_def calculateCurrencyAmounts_def)
  next
    case nu: False
    show ?thesis
    proof (cases "currency = ''INR''")
      case True
      with u a show ?thesis
        by (simp add: chosen_amount_def calculateCurrencyAmounts_def)
    next
      case ni: False
      show ?thesis
      proof (cases "currency = ''AUD''")
        case True
        with u i show ?thesis
          by (simp add: chosen_amount_def calculateCurrencyAmounts_def)
      next
        case False
        with nu ni show ?thesis
          by (simp add: chosen_amount_def calculateCurrencyAmounts_def)
      qed
    qed
  qed
qed

text \<open>
  What a successful \<open>createPaymentIntent\<close> leaves behind, whatever the converter
  does: the orders table has one more order, whose amount in its currency is the
  chosen amount of \<open>calculateCurrencyAmounts\<close>; one more request has been sent, whose
  one line item has that amount as item total, the quantity, and as rate the amount
  divided by the quantity (no finite number for the quantity 0).
\<close>

lemma persisted_and_invoiced_chosen_amount:
  assumes "fst (createPaymentIntent en w sid pkg totalPrice cur q) = Inr r"
  shows "map order_amount (orders (snd (createPaymentIntent en w sid pkg totalPrice cur q))) =
           map order_amount (orders w) @ [chosen_amount en totalPrice cur] \<and>
         map (\<lambda>rq. map li_item_total (lineItems (rq_serviceItems rq)))
             (zoho_requests (snd (createPaymentIntent en w sid pkg totalPrice cur q))) =
           map (\<lambda>rq. map li_item_total (lineItems (rq_serviceItems rq))) (zoho_requests w) @
           [[chosen_amount en totalPrice cur]] \<and>
         map (\<lambda>rq. map li_rate (lineItems (rq_serviceItems rq)))
             (zoho_requests (snd (createPaymentIntent en w sid pkg totalPrice cur q))) =
           map (\<lambda>rq. map li_rate (lineItems (rq_serviceItems rq))) (zoho_requests w) @
           [[if q = 0 then None else Some (chosen_amount en totalPrice cur / q)]] \<and>
         map (\<lambda>rq. map li_quantity (lineItems (rq_serviceItems rq)))
             (zoho_requests (snd (createPaymentIntent en w sid pkg totalPrice cur q))) =
           map (\<lambda>rq. map li_quantity (lineItems (rq_serviceItems rq))) (zoho_requests w) @ [[q]] \<and>
         (chosen_amount en totalPrice cur = toFixed2 totalPrice \<or>
          chosen_amount en totalPrice cur = totalPrice)"
proof -
  let ?core = "createPaymentIntent_steps_1_7 en w sid pkg totalPrice cur q"
  let ?w' = "snd (createPaymentIntent en w sid pkg totalPrice cur q)"
  from createPaymentIntent_Inr [OF assms] obtain ord zr where core: "fst ?core = Inr (ord, zr)"
    by blast
  then have "?core = (Inr (ord, zr), snd ?core)"
    by (simp add: prod_eq_iff)
  then obtain usr :: user and serviceId svc cl w2 where
    st: "same_tables w w2" and
    ord: "ord = order_row en (u_id usr) serviceId pkg totalPrice cur" and
    w4: "snd ?core = w2\<lparr>orders := orders w2 @ [ord],
        zoho_requests := zoho_requests w2 @ [request_for ord svc cl q]\<rparr>"
    by (rule steps_1_7_success) blast
  from st have t: "orders w2 = orders w" "zoho_requests w2 = zoho_requests w"
    by (simp_all add: same_tables_def)
  note full = createPaymentIntent_success [OF core]
  have amt: "order_amount ord = chosen_amount en totalPrice cur"
    by (simp add: ord order_amount_order_row)
  have o: "map order_amount (orders ?w') = map order_amount (orders w) @ [chosen_amount en totalPrice cur]"
    by (simp add: full logPaymentAttempt_tables update_orders_link_amounts w4 t amt)
  have z: "zoho_requests ?w' = zoho_requests w @ [request_for ord svc cl q]"
    by (simp add: full logPaymentAttempt_tables update_orders_zoho_requests w4 t)
  have li: "lineItems (rq_serviceItems (request_for ord svc cl q)) =
      [\<lparr>li_name = s_name svc,
        li_rate = (if q = 0 then None else Some (chosen_amount en totalPrice cur / q)),
        li_quantity = q,
        li_item_total = chosen_amount en totalPrice cur\<rparr>]"
    by (simp add: lineItems_def request_for_def amt)
  from o z li chosen_amount_cases [of en totalPrice cur]
  show ?thesis
    by simp
qed

text \<open>
  C10. The converter keeps its contract and returns. After a successful
  \<open>createPaymentIntent\<close> the orders table has one more order, whose amount in its
  currency is the total price the caller gave, rounded to two decimals; one more
  request has been sent to the provider, whose one line item has that amount as item
  total, the quantity, and as unit price the amount divided by the quantity (no finite
  number for the quantity 0). Neither the pricing of the catalog nor the quantity
  occurs in the amount persisted or in the item total.
\<close>

theorem persisted_and_invoiced_amount:
  assumes "fst (createPaymentIntent en w sid pkg totalPrice cur q) = Inr r"
    and "convertCurrency_returns en totalPrice cur"
  shows "map order_amount (orders (snd (createPaymentIntent en w sid pkg totalPrice cur q))) =
           map order_amount (orders w) @ [toFixed2 totalPrice] \<and>
         map (\<lambda>rq. map li_item_total (lineItems (rq_serviceItems rq)))
             (zoho_requests (snd (createPaymentIntent en w sid pkg totalPrice cur q))) =
           map (\<lambda>rq. map li_item_total (lineItems (rq_serviceItems rq))) (zoho_requests w) @
           [[toFixed2 totalPrice]] \<and>
         map (\<lambda>rq. map li_rate (lineItems (rq_serviceItems rq)))
             (zoho_requests (snd (createPaymentIntent en w sid pkg totalPrice cur q))) =
           map (\<lambda>rq. map li_rate (lineItems (rq_serviceItems rq))) (zoho_requests w) @
           [[if q = 0 then None else Some (toFixed2 totalPrice / q)]] \<and>
         map (\<lambda>rq. map li_quantity (lineItems (rq_serviceItems rq)))
             (zoho_requests (snd (createPaymentIntent en w sid pkg totalPrice cur q))) =
           map (\<lambda>rq. map li_quantity (lineItems (rq_serviceItems rq))) (zoho_requests w) @ [[q]]"
  using persisted_and_invoiced_chosen_amount [OF assms(1)]
    chosen_amount_converter_returns [OF assms(2)]
  by simp


theorem persisted_and_invoiced_amount_witness:
  "fst (createPaymentIntent ex_env ex_world ex_sid ''standard'' (5063 / 500) ''USD'' 2) =
     Inr (ex_intent\<lparr>pi_transaction_id := ''txn_1''\<rparr>) \<and>
   convertCurrency_returns ex_env (5063 / 500) ''USD'' \<and>
   toFixed2 (5063 / 500) = 1013 / 100 \<and>
   map order_amount (orders (snd (createPaymentIntent ex_env ex_world ex_sid ''standard''
     (5063 / 500) ''USD'' 2))) = [10, 1013 / 100] \<and>
   map (\<lambda>rq. map li_item_total (lineItems (rq_serviceItems rq)))
     (zoho_requests (snd (createPaymentIntent ex_env ex_world ex_sid ''standard''
        (5063 / 500) ''USD'' 2))) = [[1013 / 100]] \<and>
   map (\<lambda>rq. map li_rate (lineItems (rq_serviceItems rq)))
     (zoho_requests (snd (createPaymentIntent ex_env ex_world ex_sid ''standard''
        (5063 / 500) ''USD'' 2))) = [[Some (1013 / 200)]]"
proof -
  have a: "fst (createPaymentIntent ex_env ex_world ex_sid ''standard'' (5063 / 500) ''USD'' 2) =
     Inr (ex_intent\<lparr>pi_transaction_id := ''txn_1''\<rparr>)"
    by code_simp
  have b: "convertCurrency_returns ex_env (5063 / 500) ''USD''"
    by code_simp
  have c: "toFixed2 (5063 / 500) = 1013 / 100" "map order_amount (orders ex_world) = [10]"
    "zoho_requests ex_world = []"
    by code_simp+
  from persisted_and_invoiced_amount [OF a b] a b c show ?thesis
    by simp
qed

section \<open>A package type the pricing does not have\<close>

text \<open>
  C4 at a package type that is no entry of the pricing but a member every object
  inherits. The test of step 3 passes, the call goes on to the profile, the amounts and
  the insert, and it fails there, on the trigger, with the error of a failed order
  creation.
\<close>

theorem inherited_member_passes_pricing_check:
  "map_option (\<lambda>pricing. map_of pricing ''constructor'') (s_pricing ex_service) = Some None \<and>
   has_pricing ex_service ''constructor'' \<and>
   fst (createPaymentIntent ex_env ex_world ex_sid ''constructor'' 10 ''USD'' 1) =
     Inl ''Failed to create order: Invalid package type: constructor''"
  by code_simp

text \<open>
  For every other package type the claim holds: a package type that is no member of
  \<open>Object.prototype\<close> passes the test exactly when the pricing has a non-zero entry
  for it, and a call that reaches the test and fails it throws the package error and
  leaves the orders table as it is.
\<close>

lemma invalid_package_rejected:
  assumes "auth_error en = None" and "auth_user en = Some usr"
    and "u_email_confirmed_at usr \<noteq> None" and "u_email_confirmed_at usr \<noteq> Some []"
    and "resolveServiceId en w sid = (Some serviceId, w1)"
    and "getServiceById en w1 serviceId = (Inr (Some svc), w2)"
    and "\<not> has_pricing svc pkg"
  shows "fst (createPaymentIntent en w sid pkg totalPrice cur q) =
           Inl (''Package type '' @ [CHR 0x22] @ pkg @ [CHR 0x22] @ '' not available for '' @ s_name svc) \<and>
         orders (snd (createPaymentIntent en w sid pkg totalPrice cur q)) = orders w"
proof -
  let ?e = "''Package type '' @ [CHR 0x22] @ pkg @ [CHR 0x22] @ '' not available for '' @ s_name svc"
  from assms have core: "createPaymentIntent_steps_1_7 en w sid pkg totalPrice cur q = (Inl ?e, w2)"
    by (simp add: createPaymentIntent_steps_1_7_def)
  from resolveServiceId_tables [of w en sid] assms(5) have "same_tables w w1" by simp
  moreover from getServiceById_tables [of w1 en serviceId] assms(6) have "same_tables w1 w2" by simp
  ultimately have "orders w2 = orders w"
    by (simp add: same_tables_def)
  with core show ?thesis
    by (simp add: createPaymentIntent_def createPaymentIntent_try_def logPaymentAttempt_tables)
qed

lemma has_pricing_own_entry:
  "packageType \<notin> set object_prototype_keys \<Longrightarrow>
   has_pricing svc packageType \<longleftrightarrow>
     (\<exists>pricing price. s_pricing svc = Some pricing \<and> map_of pricing packageType = Some price \<and> price \<noteq> 0)"
  by (auto simp: has_pricing_def js_get_def split: option.splits)


end
